theory Spec2Isabelle
  imports Complex_Main
begin

section \<open>TripGo MCP server: response shaping, region lookup and timezone helpers\<close>

text \<open>
  A shallow embedding of \<^verbatim>\<open>src/tools/helpers.ts\<close> and of the later revision of
  \<^verbatim>\<open>src/tools/tripgo.ts\<close> (the handlers \<^verbatim>\<open>handleRouting\<close>, \<^verbatim>\<open>handleSaveTrip\<close>,
  \<^verbatim>\<open>handleLocationsSearch\<close>, \<^verbatim>\<open>handleDepartures\<close> and their tool wrappers).

  Conventions.
  \<^item> A JavaScript exception is a value \<open>Inl e\<close> of \<open>error + 'a\<close>; a normal return is \<open>Inr v\<close>.
  \<^item> An optional field or parameter (\<^verbatim>\<open>x?: T\<close>) is a \<open>T option\<close>; \<open>None\<close> is \<^verbatim>\<open>undefined\<close>.
  \<^item> Epoch seconds and milliseconds are \<open>int\<close>; scores, costs and coordinates are \<open>rat\<close>
    (every finite JavaScript number is a rational).
  \<^item> Third-party and platform functions (\<^verbatim>\<open>polyline.decode\<close>, Turf, \<^verbatim>\<open>Intl\<close>, \<^verbatim>\<open>Date\<close> parsing,
    \<^verbatim>\<open>fetch\<close>) are parameters of the functions that call them; the handlers are modelled from
    the parsed upstream response \<^verbatim>\<open>data\<close> onwards, and \<^verbatim>\<open>handleRouting\<close> as a whole as well.
\<close>

subsection \<open>Errors\<close>

text \<open>
  \<open>Error m\<close> is \<^verbatim>\<open>new Error(m)\<close>; \<open>TypeError\<close> and \<open>RangeError\<close> are the built-in exceptions the
  engine raises (reading a property of \<^verbatim>\<open>undefined\<close>; an unknown time zone or an invalid date
  handed to \<^verbatim>\<open>Intl.DateTimeFormat\<close>). \<open>ToolError tool cause\<close> is the error a tool wrapper
  rethrows: \<^verbatim>\<open>new Error(`Error in ${tool}: ${cause.message}`)\<close>.
\<close>

datatype error = Error string | TypeError | RangeError | ToolError string error

text \<open>JavaScript truthiness of an optional string: \<^verbatim>\<open>undefined\<close> and \<^verbatim>\<open>""\<close> are falsy.\<close>

fun truthy :: "string option \<Rightarrow> bool" where
  "truthy None = False"
| "truthy (Some s) = (s \<noteq> [])"

text \<open>A test \<^verbatim>\<open>if (x)\<close> on an optional string (\<^verbatim>\<open>data.error\<close>, \<^verbatim>\<open>departureTime\<close>): the string when
  the branch is taken.\<close>

fun whenTruthy :: "string option \<Rightarrow> string option" where
  "whenTruthy None = None"
| "whenTruthy (Some s) = (if s = [] then None else Some s)"

text \<open>\<^verbatim>\<open>xs.map(f)\<close> where \<^verbatim>\<open>f\<close> may throw: elements are visited in order and the first exception
  aborts the whole map.\<close>

fun mapE :: "('a \<Rightarrow> error + 'b) \<Rightarrow> 'a list \<Rightarrow> error + 'b list" where
  "mapE f [] = Inr []"
| "mapE f (x # xs) =
     (case f x of
        Inl e \<Rightarrow> Inl e
      | Inr y \<Rightarrow> (case mapE f xs of Inl e \<Rightarrow> Inl e | Inr ys \<Rightarrow> Inr (y # ys)))"

subsection \<open>Arrays\<close>

text \<open>
  \<^verbatim>\<open>Array.prototype.sort(cmp)\<close>. ECMAScript requires the sort to be stable, so for a consistent
  comparator the result is the one stable ordering, whatever algorithm the engine runs; the
  model is a stable insertion sort driven by the comparator's sign.
\<close>

fun insert_cmp :: "('a \<Rightarrow> 'a \<Rightarrow> rat) \<Rightarrow> 'a \<Rightarrow> 'a list \<Rightarrow> 'a list" where
  "insert_cmp cmp x [] = [x]"
| "insert_cmp cmp x (y # ys) =
     (if cmp x y \<le> 0 then x # y # ys else y # insert_cmp cmp x ys)"

definition array_sort :: "('a \<Rightarrow> 'a \<Rightarrow> rat) \<Rightarrow> 'a list \<Rightarrow> 'a list" where
  "array_sort cmp xs = foldr (insert_cmp cmp) xs []"

text \<open>
  \<^verbatim>\<open>xs.slice(0, end)\<close> for an integral \<^verbatim>\<open>end\<close>: \<^verbatim>\<open>undefined\<close> keeps everything, a negative
  \<^verbatim>\<open>end\<close> counts from the back of the array.
\<close>

fun array_slice0 :: "'a list \<Rightarrow> int option \<Rightarrow> 'a list" where
  "array_slice0 xs None = xs"
| "array_slice0 xs (Some n) =
     (if n < 0 then take (nat (int (length xs) + n)) xs else take (nat n) xs)"

subsection \<open>Upstream data (the interfaces of tripgo.ts)\<close>

text \<open>Only the fields the handlers read are kept. Field names that clash with another
  record's, or with an Isabelle keyword, carry a suffix.\<close>

text \<open>\<^verbatim>\<open>Location\<close> repeats the two members of \<^verbatim>\<open>Coordinate\<close>, and \<^verbatim>\<open>StopLocation extends Location\<close>;
  the records extend one another so that the member names are shared.\<close>

record Coordinate =
  lat :: rat
  lng :: rat

record Location = Coordinate +
  address :: "string option"
  name :: "string option"

record StopLocation = Location +
  code :: "string option"
  region :: "string option"
  services :: "string list option"

record Region =
  name_region :: string
  polygon :: string
  timezone_region :: string

record ModeInfo =
  alt :: string

record SegmentTemplate =
  hashCode :: int
  modeInfo :: ModeInfo
  from_tpl :: "Location option"
  to_tpl :: "Location option"
  action :: "string option"

record SegmentReference =
  segmentTemplateHashCode :: int
  startTime :: int
  endTime :: int
  serviceName :: "string option"
  serviceNumber :: "string option"

record Trip =
  id_trip :: string
  arrive :: int
  depart :: int
  moneyCost :: "rat option"
  currencySymbol :: "string option"
  caloriesCost :: "rat option"
  carbonCost :: "rat option"
  segments :: "SegmentReference list"
  weightedScore :: rat
  saveURL :: "string option"

record TripGroup =
  trips :: "Trip list"

record RoutingResponse =
  error_routing :: "string option"
  groups :: "TripGroup list option"
  segmentTemplates :: "SegmentTemplate list option"

subsection \<open>Timezone helpers (helpers.ts)\<close>

text \<open>
  Instants are milliseconds since the epoch. The host's time zone database is a parameter
  \<open>tz\<close>: \<open>tz name = None\<close> when the host does not know the zone (\<^verbatim>\<open>Intl\<close> then throws a
  \<^verbatim>\<open>RangeError\<close>), and otherwise \<open>tz name = Some off\<close> where \<open>off t\<close> is the zone's UTC offset in
  milliseconds at the instant \<open>t\<close>.

  A \<^verbatim>\<open>Date\<close> holds an instant only within \<open>\<plusminus>8.64e15\<close> ms; beyond that it is an Invalid Date.
\<close>

type_synonym tzdb = "string \<Rightarrow> (int \<Rightarrow> int) option"

definition validTime :: "int \<Rightarrow> bool" where
  "validTime t = (\<bar>t\<bar> \<le> 8640000000000000)"

text \<open>
  What the string returned by \<^verbatim>\<open>toISOStringInTimezone\<close> spells: the wall-clock date and time
  (year, month, day, hour, minute, second) as the count of seconds they denote when read as
  UTC, and the zone's offset at that instant (the \<^verbatim>\<open>timeZoneName\<close> part).
\<close>

record ZonedIso =
  wallClock :: int
  utcOffset :: int

definition toISOStringInTimezone :: "tzdb \<Rightarrow> int \<Rightarrow> string \<Rightarrow> error + ZonedIso" where
  "toISOStringInTimezone tz utcDate timezone =
     (case tz timezone of
        None \<Rightarrow> Inl RangeError
      | Some off \<Rightarrow>
          if \<not> validTime utcDate then Inl RangeError
          else Inr \<lparr> wallClock = (utcDate + off utcDate) div 1000, utcOffset = off utcDate \<rparr>)"

subsection \<open>Trip formatter (handleRouting, after the upstream response is parsed)\<close>

record FormattedSegment =
  seg_mode :: string
  seg_duration :: int
  seg_action :: "string option"
  seg_serviceName :: "string option"
  seg_serviceNumber :: "string option"
  seg_from :: "string option"
  seg_to :: "string option"

record FormattedTrip =
  ft_id :: string
  ft_depart :: ZonedIso
  ft_arrive :: ZonedIso
  ft_totalDuration :: int
  ft_segments :: "FormattedSegment list"
  ft_cost :: "rat option"
  ft_currency :: "string option"
  ft_caloriesCost :: "rat option"
  ft_carbonCost :: "rat option"
  ft_score :: rat
  ft_url :: "string option"

text \<open>\<^verbatim>\<open>Math.floor(x / 60)\<close> on an integral number of seconds.\<close>

definition floorMinutes :: "int \<Rightarrow> int" where
  "floorMinutes secs = \<lfloor>(of_int secs :: rat) / 60\<rfloor>"

text \<open>\<^verbatim>\<open>data.segmentTemplates?.find((t) => t.hashCode === segment.segmentTemplateHashCode)\<close>\<close>

definition findTemplate :: "SegmentTemplate list option \<Rightarrow> SegmentReference \<Rightarrow> SegmentTemplate option" where
  "findTemplate templates segment =
     (case templates of
        None \<Rightarrow> None
      | Some ts \<Rightarrow> find (\<lambda>t. hashCode t = segmentTemplateHashCode segment) ts)"

definition formatSegment :: "SegmentTemplate list option \<Rightarrow> SegmentReference \<Rightarrow> FormattedSegment" where
  "formatSegment templates segment =
     (let template = findTemplate templates segment in
      \<lparr> seg_mode =
          (case template of
             None \<Rightarrow> ''Unknown Mode''
           | Some t \<Rightarrow> if alt (modeInfo t) = [] then ''Unknown Mode'' else alt (modeInfo t)),
        seg_duration = floorMinutes (endTime segment - startTime segment),
        seg_action = Option.bind template action,
        seg_serviceName = serviceName segment,
        seg_serviceNumber = serviceNumber segment,
        seg_from = Option.bind (Option.bind template from_tpl) address,
        seg_to = Option.bind (Option.bind template to_tpl) address \<rparr>)"

definition formatTrip ::
  "tzdb \<Rightarrow> SegmentTemplate list option \<Rightarrow> string \<Rightarrow> Trip \<Rightarrow> error + FormattedTrip" where
  "formatTrip tz templates timezone trip =
     (let segs = map (formatSegment templates) (segments trip) in
      case toISOStringInTimezone tz (depart trip * 1000) timezone of
        Inl e \<Rightarrow> Inl e
      | Inr dep \<Rightarrow>
          (case toISOStringInTimezone tz (arrive trip * 1000) timezone of
             Inl e \<Rightarrow> Inl e
           | Inr arr \<Rightarrow>
               Inr \<lparr> ft_id = id_trip trip,
                     ft_depart = dep,
                     ft_arrive = arr,
                     ft_totalDuration = floorMinutes (arrive trip - depart trip),
                     ft_segments = segs,
                     ft_cost = moneyCost trip,
                     ft_currency = currencySymbol trip,
                     ft_caloriesCost = caloriesCost trip,
                     ft_carbonCost = carbonCost trip,
                     ft_score = weightedScore trip,
                     ft_url = saveURL trip \<rparr>))"

text \<open>The object \<^verbatim>\<open>{ trips: sortedTrips.slice(0, 2), score: sortedTrips[0].weightedScore }\<close>.\<close>

record SelectedGroup =
  sel_trips :: "Trip list"
  sel_score :: rat

text \<open>The callback of \<^verbatim>\<open>data.groups?.map\<close>: on an empty group \<^verbatim>\<open>sortedTrips[0]\<close> is
  \<^verbatim>\<open>undefined\<close> and reading its \<^verbatim>\<open>weightedScore\<close> throws a TypeError.\<close>

definition selectGroup :: "TripGroup \<Rightarrow> error + SelectedGroup" where
  "selectGroup grp =
     (let sortedTrips = array_sort (\<lambda>a b. weightedScore a - weightedScore b) (trips grp) in
      case sortedTrips of
        [] \<Rightarrow> Inl TypeError
      | best # _ \<Rightarrow> Inr \<lparr> sel_trips = take 2 sortedTrips, sel_score = weightedScore best \<rparr>)"

definition selectedGroups :: "TripGroup list option \<Rightarrow> int option \<Rightarrow> error + SelectedGroup list" where
  "selectedGroups gs limit =
     (case gs of
        None \<Rightarrow> Inr []
      | Some grps \<Rightarrow>
          (case mapE selectGroup grps of
             Inl e \<Rightarrow> Inl e
           | Inr sel \<Rightarrow>
               Inr (array_slice0 (array_sort (\<lambda>a b. sel_score a - sel_score b) sel) limit)))"

text \<open>
  \<^verbatim>\<open>handleRouting\<close> from the parsed routing response on: the upstream error check, the
  selection, and \<^verbatim>\<open>formattedTrips\<close> (the \<^verbatim>\<open>trips\<close> member of the returned document).
\<close>

definition handleRouting_response ::
  "tzdb \<Rightarrow> RoutingResponse \<Rightarrow> int option \<Rightarrow> string \<Rightarrow> error + FormattedTrip list" where
  "handleRouting_response tz data limit timezone =
     (case whenTruthy (error_routing data) of
        Some msg \<Rightarrow> Inl (Error (''Routing failed: '' @ msg))
      | None \<Rightarrow>
          (case selectedGroups (groups data) limit of
             Inl e \<Rightarrow> Inl e
           | Inr selected \<Rightarrow>
               mapE (formatTrip tz (segmentTemplates data) timezone)
                 (concat (map sel_trips selected))))"


subsection \<open>Point in polygon and region lookup (helpers.ts, getRegionForCoordinate)\<close>

text \<open>
  A position is a pair in Turf's \<^verbatim>\<open>[lng, lat]\<close> order. Two library calls are parameters:
  \<^item> \<open>decode\<close> is \<^verbatim>\<open>polyline.decode\<close>: the \<^verbatim>\<open>[lat, lng]\<close> pairs of an encoded polyline, or the
    exception it throws;
  \<^item> \<open>turf p ring\<close> is \<^verbatim>\<open>booleanPointInPolygon(point(p), polygon([ring]))\<close>, or the exception
    Turf throws (a ring of fewer than four positions, for one).
\<close>

type_synonym position = "rat \<times> rat"

text \<open>The statement \<^verbatim>\<open>if (first !== last) polygonCoords.push(polygonCoords[0])\<close>: on an empty
  array \<^verbatim>\<open>polygonCoords[0]\<close> is \<^verbatim>\<open>undefined\<close> and indexing it throws a TypeError.\<close>

definition closePolygon :: "position list \<Rightarrow> error + position list" where
  "closePolygon polygonCoords =
     (case polygonCoords of
        [] \<Rightarrow> Inl TypeError
      | first # _ \<Rightarrow>
          if fst first \<noteq> fst (last polygonCoords) \<or> snd first \<noteq> snd (last polygonCoords)
          then Inr (polygonCoords @ [first])
          else Inr polygonCoords)"

definition coordinateInPolygon ::
  "(string \<Rightarrow> error + (rat \<times> rat) list) \<Rightarrow> (position \<Rightarrow> position list \<Rightarrow> error + bool) \<Rightarrow>
   Coordinate \<Rightarrow> string \<Rightarrow> error + bool" where
  "coordinateInPolygon decode turf coordinate encodedPolygon =
     (case decode encodedPolygon of
        Inl e \<Rightarrow> Inl e
      | Inr points \<Rightarrow>
          (case closePolygon (map (\<lambda>coord. (snd coord, fst coord)) points) of
             Inl e \<Rightarrow> Inl e
           | Inr ring \<Rightarrow> turf (lng coordinate, lat coordinate) ring))"

text \<open>\<^verbatim>\<open>Array.prototype.find\<close> with a predicate that may throw.\<close>

fun array_find :: "('a \<Rightarrow> error + bool) \<Rightarrow> 'a list \<Rightarrow> error + 'a option" where
  "array_find p [] = Inr None"
| "array_find p (x # xs) =
     (case p x of
        Inl e \<Rightarrow> Inl e
      | Inr True \<Rightarrow> Inr (Some x)
      | Inr False \<Rightarrow> array_find p xs)"

text \<open>\<^verbatim>\<open>fetchRegions\<close> after the response is parsed: \<^verbatim>\<open>if (!data.regions) throw\<close>.\<close>

definition fetchRegions_response :: "Region list option \<Rightarrow> error + Region list" where
  "fetchRegions_response regions =
     (case regions of
        None \<Rightarrow> Inl (Error ''Failed to fetch regions'')
      | Some rs \<Rightarrow> Inr rs)"

definition getRegionForCoordinate ::
  "(string \<Rightarrow> error + (rat \<times> rat) list) \<Rightarrow> (position \<Rightarrow> position list \<Rightarrow> error + bool) \<Rightarrow>
   Coordinate \<Rightarrow> Region list option \<Rightarrow> error + Region option" where
  "getRegionForCoordinate decode turf coordinate regionsData =
     (case fetchRegions_response regionsData of
        Inl e \<Rightarrow> Inl e
      | Inr regions \<Rightarrow>
          array_find (\<lambda>r. coordinateInPolygon decode turf coordinate (polygon r)) regions)"

text \<open>\<^verbatim>\<open>const timezone = region?.timezone || "UTC"\<close> in handleRouting.\<close>

definition routingTimezone :: "Region option \<Rightarrow> string" where
  "routingTimezone r =
     (case r of
        None \<Rightarrow> ''UTC''
      | Some found \<Rightarrow> if timezone_region found = [] then ''UTC'' else timezone_region found)"

subsection \<open>Local time to UTC (helpers.ts, formatDateForTripGo)\<close>

text \<open>
  Two more host functions are parameters:
  \<^item> \<open>parseDate s\<close> is \<^verbatim>\<open>new Date(s).getTime()\<close>, \<open>None\<close> for an Invalid Date;
  \<^item> \<open>parseLocal w\<close> is the instant \<^verbatim>\<open>new Date(text)\<close> gives for a locale string \<^verbatim>\<open>text\<close> that spells
    the wall clock \<open>w\<close> (milliseconds, read in the server's own zone; the identity on a server
    that runs in UTC).
  \<open>localeWall off date\<close> is the wall clock that \<^verbatim>\<open>date.toLocaleString("en-US", {timeZone})\<close>
  spells, to the second, for a zone with offsets \<open>off\<close>. The zone \<^verbatim>\<open>"UTC"\<close> is known to every
  host and has offset 0.
\<close>

definition localeWall :: "(int \<Rightarrow> int) \<Rightarrow> int \<Rightarrow> int" where
  "localeWall off date = ((date + off date) div 1000) * 1000"

definition zonedTimeToUtc ::
  "tzdb \<Rightarrow> (string \<Rightarrow> int option) \<Rightarrow> (int \<Rightarrow> int) \<Rightarrow> string \<Rightarrow> string \<Rightarrow> error + int option" where
  "zonedTimeToUtc tz parseDate parseLocal isoDateLocalString timezone =
     (case parseDate (isoDateLocalString @ ''Z'') of
        None \<Rightarrow> Inr None
      | Some date \<Rightarrow>
          (case tz timezone of
             None \<Rightarrow> Inl RangeError
           | Some off \<Rightarrow>
               (let targetTime = parseLocal (localeWall off date);
                    utcTime = parseLocal (localeWall (\<lambda>t. 0) date);
                    offset = targetTime - utcTime
                in Inr (if validTime (date - offset) then Some (date - offset) else None))))"

text \<open>The test \<^verbatim>\<open>isoDateString.includes("Z") || isoDateString.match(/[+-]\d{2}:\d{2}$/)\<close>.\<close>

definition isDigit :: "char \<Rightarrow> bool" where
  "isDigit c = (c \<in> set ''0123456789'')"

definition hasTimezoneInfo :: "string \<Rightarrow> bool" where
  "hasTimezoneInfo isoDateString =
     (CHR ''Z'' \<in> set isoDateString \<or>
      (case rev isoDateString of
         m2 # m1 # colon # h2 # h1 # sign # _ \<Rightarrow>
           (sign = CHR ''+'' \<or> sign = CHR ''-'') \<and> isDigit h1 \<and> isDigit h2 \<and>
           colon = CHR '':'' \<and> isDigit m1 \<and> isDigit m2
       | _ \<Rightarrow> False))"

text \<open>The result is a number of seconds, \<open>None\<close> for \<^verbatim>\<open>NaN\<close>.\<close>

definition formatDateForTripGo ::
  "tzdb \<Rightarrow> (string \<Rightarrow> int option) \<Rightarrow> (int \<Rightarrow> int) \<Rightarrow> string \<Rightarrow> string \<Rightarrow> error + int option" where
  "formatDateForTripGo tz parseDate parseLocal isoDateString timezone =
     (if hasTimezoneInfo isoDateString
      then Inr (map_option (\<lambda>ms. ms div 1000) (parseDate isoDateString))
      else
        case zonedTimeToUtc tz parseDate parseLocal isoDateString timezone of
          Inl e \<Rightarrow> Inl e
        | Inr utcDate \<Rightarrow> Inr (map_option (\<lambda>ms. ms div 1000) utcDate))"

subsection \<open>The routing request (handleRouting, before the upstream call)\<close>

text \<open>
  The query parameters appended to the URL, in order. A value keeps the datum whose
  \<^verbatim>\<open>toString()\<close> the code appends: a text, a number, a number of epoch seconds (\<open>None\<close> is
  \<^verbatim>\<open>NaN\<close>), or the pair rendered as \<^verbatim>\<open>(lat, lng)\<close>.
\<close>

datatype qvalue = QText string | QNum rat | QEpoch "int option" | QPoint rat rat

definition timeParams ::
  "tzdb \<Rightarrow> (string \<Rightarrow> int option) \<Rightarrow> (int \<Rightarrow> int) \<Rightarrow> string option \<Rightarrow> string option \<Rightarrow> string \<Rightarrow>
   error + (string \<times> qvalue) list" where
  "timeParams tz parseDate parseLocal departureTime arrivalTime timezone =
     (case whenTruthy departureTime of
        Some departure \<Rightarrow>
          (case formatDateForTripGo tz parseDate parseLocal departure timezone of
             Inl e \<Rightarrow> Inl e
           | Inr secs \<Rightarrow> Inr [(''departAfter'', QEpoch secs)])
      | None \<Rightarrow>
          (case whenTruthy arrivalTime of
             Some arrival \<Rightarrow>
               (case formatDateForTripGo tz parseDate parseLocal arrival timezone of
                  Inl e \<Rightarrow> Inl e
                | Inr secs \<Rightarrow> Inr [(''arriveBefore'', QEpoch secs)])
           | None \<Rightarrow> Inr []))"

definition handleRouting_url ::
  "tzdb \<Rightarrow> (string \<Rightarrow> int option) \<Rightarrow> (int \<Rightarrow> int) \<Rightarrow> rat \<Rightarrow> rat \<Rightarrow> rat \<Rightarrow> rat \<Rightarrow>
   string option \<Rightarrow> string option \<Rightarrow> string list option \<Rightarrow> rat option \<Rightarrow> bool option \<Rightarrow> string \<Rightarrow>
   error + (string \<times> qvalue) list" where
  "handleRouting_url tz parseDate parseLocal fromLat fromLng toLat toLng
      departureTime arrivalTime modes maxWalkingTime wheelchair timezone =
     (case timeParams tz parseDate parseLocal departureTime arrivalTime timezone of
        Inl e \<Rightarrow> Inl e
      | Inr timing \<Rightarrow>
          Inr ([(''from'', QPoint fromLat fromLng), (''to'', QPoint toLat toLng)]
               @ timing
               @ (case modes of
                    None \<Rightarrow> []
                  | Some ms \<Rightarrow>
                      if ms = [] then []
                      else map (\<lambda>m. (''modes'', QText m)) ms @ [(''allModes'', QText ''1'')])
               @ [(''v'', QText ''11'')]
               @ (case maxWalkingTime of
                    None \<Rightarrow> []
                  | Some wm \<Rightarrow> if wm = 0 then [] else [(''wm'', QNum wm)])
               @ (case wheelchair of
                    None \<Rightarrow> []
                  | Some w \<Rightarrow> [(''wheelchair'', QText (if w then ''1'' else ''0''))])))"


subsection \<open>The routing operation as a whole (handleRouting)\<close>

text \<open>
  The parsed body of \<^verbatim>\<open>regions.json\<close>. The interface \<^verbatim>\<open>RegionsResponse\<close> declares the member
  \<^verbatim>\<open>regions\<close> only; \<open>error_regions\<close> is the \<^verbatim>\<open>error\<close> member an upstream body may carry, which
  \<^verbatim>\<open>fetchRegions\<close> and \<^verbatim>\<open>getRegionForCoordinate\<close> never read.
\<close>

record RegionsResponse =
  error_regions :: "string option"
  regions_data :: "Region list option"

text \<open>
  \<^verbatim>\<open>handleRouting\<close> in the order of the source: the region lookup on the origin, the time zone,
  the request, the upstream call and the formatting. \<open>regionsData\<close> is the parsed body of
  \<^verbatim>\<open>regions.json\<close>, and \<open>fetchRouting query\<close> is the parsed body that \<^verbatim>\<open>routing.json\<close> answers
  the request with, or the exception \<^verbatim>\<open>fetch\<close> and \<^verbatim>\<open>response.json()\<close> throw.
\<close>

definition handleRouting ::
  "(string \<Rightarrow> error + (rat \<times> rat) list) \<Rightarrow> (position \<Rightarrow> position list \<Rightarrow> error + bool) \<Rightarrow>
   tzdb \<Rightarrow> (string \<Rightarrow> int option) \<Rightarrow> (int \<Rightarrow> int) \<Rightarrow>
   RegionsResponse \<Rightarrow> ((string \<times> qvalue) list \<Rightarrow> error + RoutingResponse) \<Rightarrow>
   rat \<Rightarrow> rat \<Rightarrow> rat \<Rightarrow> rat \<Rightarrow> string option \<Rightarrow> string option \<Rightarrow> string list option \<Rightarrow>
   rat option \<Rightarrow> bool option \<Rightarrow> int option \<Rightarrow> error + FormattedTrip list" where
  "handleRouting decode turf tz parseDate parseLocal regionsData fetchRouting
      fromLat fromLng toLat toLng departureTime arrivalTime modes maxWalkingTime wheelchair limit =
     (case getRegionForCoordinate decode turf \<lparr> lat = fromLat, lng = fromLng \<rparr>
             (regions_data regionsData) of
        Inl e \<Rightarrow> Inl e
      | Inr r \<Rightarrow>
          (let timezone = routingTimezone r in
           case handleRouting_url tz parseDate parseLocal fromLat fromLng toLat toLng
                  departureTime arrivalTime modes maxWalkingTime wheelchair timezone of
             Inl e \<Rightarrow> Inl e
           | Inr query \<Rightarrow>
               (case fetchRouting query of
                  Inl e \<Rightarrow> Inl e
                | Inr data \<Rightarrow> handleRouting_response tz data limit timezone)))"

subsection \<open>get-trip-url (handleSaveTrip, after the upstream response is parsed)\<close>

record SaveTripResponse =
  error_save :: "string option"
  url_save :: "string option"

definition handleSaveTrip_response :: "SaveTripResponse \<Rightarrow> error + string option" where
  "handleSaveTrip_response data =
     (case whenTruthy (error_save data) of
        Some msg \<Rightarrow> Inl (Error (''Routing failed: '' @ msg))
      | None \<Rightarrow> Inr (url_save data))"

subsection \<open>Locations (handleLocationsSearch, after the upstream response is parsed)\<close>

record LocationGroup =
  key_group :: string
  hashCode_group :: int
  stops_group :: "StopLocation list option"
  bikePods :: "StopLocation list option"
  carParks :: "StopLocation list option"
  carPods :: "StopLocation list option"
  carRentals :: "StopLocation list option"
  freeFloating :: "StopLocation list option"

record LocationsResponse =
  error_locations :: "string option"
  groups_locations :: "LocationGroup list option"

record FormattedLocation =
  loc_lat :: rat
  loc_lng :: rat
  loc_name :: string
  loc_address :: "string option"
  loc_type :: string
  loc_code :: "string option"
  loc_region :: "string option"
  loc_services :: "string list option"

record LocationCounts =
  count_stops :: nat
  count_bikePods :: nat
  count_carParks :: nat
  count_carPods :: nat
  count_carRentals :: nat
  count_freeFloating :: nat

record GroupSummary =
  sum_key :: string
  sum_hashCode :: int
  locationCounts :: LocationCounts

record LocationsResult =
  locations :: "FormattedLocation list"
  groups_result :: "GroupSummary list option"
  totalLocations :: nat

text \<open>\<^verbatim>\<open>x || ""\<close> on an optional string.\<close>

definition orEmpty :: "string option \<Rightarrow> string" where
  "orEmpty x = (case x of None \<Rightarrow> [] | Some s \<Rightarrow> s)"

text \<open>The object pushed for a stop: no \<^verbatim>\<open>address\<close> member, a \<^verbatim>\<open>services\<close> member.\<close>

definition formatStop :: "StopLocation \<Rightarrow> FormattedLocation" where
  "formatStop location =
     \<lparr> loc_lat = lat location, loc_lng = lng location, loc_name = orEmpty (name location),
       loc_address = None, loc_type = ''stop'', loc_code = code location,
       loc_region = region location, loc_services = services location \<rparr>"

text \<open>The object pushed for the five other kinds, which differ in the \<^verbatim>\<open>type\<close> label only.\<close>

definition formatVehicleLocation :: "string \<Rightarrow> StopLocation \<Rightarrow> FormattedLocation" where
  "formatVehicleLocation kind location =
     \<lparr> loc_lat = lat location, loc_lng = lng location, loc_name = orEmpty (name location),
       loc_address = Some (orEmpty (address location)), loc_type = kind,
       loc_code = code location, loc_region = region location, loc_services = None \<rparr>"

definition members :: "'a list option \<Rightarrow> 'a list" where
  "members xs = (case xs of None \<Rightarrow> [] | Some ys \<Rightarrow> ys)"

definition formatLocationGroup :: "LocationGroup \<Rightarrow> FormattedLocation list" where
  "formatLocationGroup g =
     map formatStop (members (stops_group g))
     @ map (formatVehicleLocation ''bikePod'') (members (bikePods g))
     @ map (formatVehicleLocation ''carPark'') (members (carParks g))
     @ map (formatVehicleLocation ''carPod'') (members (carPods g))
     @ map (formatVehicleLocation ''carRental'') (members (carRentals g))
     @ map (formatVehicleLocation ''freeFloating'') (members (freeFloating g))"

definition summarizeGroup :: "LocationGroup \<Rightarrow> GroupSummary" where
  "summarizeGroup g =
     \<lparr> sum_key = key_group g, sum_hashCode = hashCode_group g,
       locationCounts =
         \<lparr> count_stops = length (members (stops_group g)),
           count_bikePods = length (members (bikePods g)),
           count_carParks = length (members (carParks g)),
           count_carPods = length (members (carPods g)),
           count_carRentals = length (members (carRentals g)),
           count_freeFloating = length (members (freeFloating g)) \<rparr> \<rparr>"

definition handleLocationsSearch_response :: "LocationsResponse \<Rightarrow> error + LocationsResult" where
  "handleLocationsSearch_response data =
     (case whenTruthy (error_locations data) of
        Some msg \<Rightarrow> Inl (Error (''Locations search failed: '' @ msg))
      | None \<Rightarrow>
          (let formattedLocations = concat (map formatLocationGroup (members (groups_locations data)))
           in Inr \<lparr> locations = formattedLocations,
                    groups_result = map_option (map summarizeGroup) (groups_locations data),
                    totalLocations = length formattedLocations \<rparr>))"

subsection \<open>Departures (handleDepartures, after the upstream response is parsed)\<close>

record Color =
  red :: rat
  green :: rat
  blue :: rat

record RealtimeVehicle =
  lastUpdate :: int
  id_vehicle :: string
  label_vehicle :: "string option"
  location_vehicle :: "Coordinate option"
  occupancy :: "string option"
  wifi :: "bool option"

record ServiceInfo =
  startTime_service :: int
  serviceTripID :: string
  serviceName_service :: "string option"
  serviceDirection :: "string option"
  serviceNumber_service :: "string option"
  serviceColor :: "Color option"
  serviceTextColor :: "Color option"
  routeID :: "string option"
  operatorID :: "string option"
  operator_service :: "string option"
  mode_service :: "string option"
  wheelchairAccessible :: "bool option"
  realTimeStatus :: "string option"
  realtimeVehicle :: "RealtimeVehicle option"
  realTimeDeparture :: "int option"

record EmbarkationStop =
  stopCode :: string
  services_stop :: "ServiceInfo list option"

record DeparturesResponse =
  error_departures :: "string option"
  embarkationStops :: "EmbarkationStop list option"
  stops :: "StopLocation list option"

text \<open>\<^verbatim>\<open>new Date(ms).toISOString()\<close>: the string spells the instant to the millisecond, and is
  kept as that instant; an Invalid Date throws a RangeError.\<close>

definition toISOString :: "int \<Rightarrow> error + int" where
  "toISOString ms = (if validTime ms then Inr ms else Inl RangeError)"

record FormattedVehicle =
  veh_id :: string
  veh_label :: "string option"
  veh_lastUpdate :: int
  veh_location :: "Coordinate option"
  veh_occupancy :: "string option"
  veh_wifi :: "bool option"

record FormattedService =
  svc_id :: string
  svc_name :: "string option"
  svc_number :: "string option"
  svc_direction :: "string option"
  svc_operator :: "string option"
  svc_mode :: "string option"

record FormattedDeparture =
  dep_scheduledDeparture :: int
  dep_realTimeDeparture :: "int option"
  dep_realTime :: bool
  dep_service :: FormattedService
  dep_wheelchairAccessible :: "bool option"
  dep_vehicle :: "FormattedVehicle option"

definition formatVehicle :: "RealtimeVehicle option \<Rightarrow> error + FormattedVehicle option" where
  "formatVehicle v =
     (case v of
        None \<Rightarrow> Inr None
      | Some vehicle \<Rightarrow>
          (case toISOString (lastUpdate vehicle * 1000) of
             Inl e \<Rightarrow> Inl e
           | Inr updated \<Rightarrow>
               Inr (Some \<lparr> veh_id = id_vehicle vehicle, veh_label = label_vehicle vehicle,
                           veh_lastUpdate = updated, veh_location = location_vehicle vehicle,
                           veh_occupancy = occupancy vehicle, veh_wifi = wifi vehicle \<rparr>)))"

text \<open>\<^verbatim>\<open>service.realTimeDeparture ? new Date(...).toISOString() : undefined\<close>: the number 0 is
  falsy.\<close>

definition formatRealTimeDeparture :: "int option \<Rightarrow> error + int option" where
  "formatRealTimeDeparture t =
     (case t of
        None \<Rightarrow> Inr None
      | Some secs \<Rightarrow>
          if secs = 0 then Inr None
          else (case toISOString (secs * 1000) of Inl e \<Rightarrow> Inl e | Inr stamp \<Rightarrow> Inr (Some stamp)))"

text \<open>The object pushed per service by the later revision.\<close>

definition formatDeparture :: "ServiceInfo \<Rightarrow> error + FormattedDeparture" where
  "formatDeparture service =
     (case toISOString (startTime_service service * 1000) of
        Inl e \<Rightarrow> Inl e
      | Inr scheduled \<Rightarrow>
          (case formatRealTimeDeparture (realTimeDeparture service) of
             Inl e \<Rightarrow> Inl e
           | Inr rt \<Rightarrow>
               (case formatVehicle (realtimeVehicle service) of
                  Inl e \<Rightarrow> Inl e
                | Inr veh \<Rightarrow>
                    Inr \<lparr> dep_scheduledDeparture = scheduled,
                          dep_realTimeDeparture = rt,
                          dep_realTime = (realTimeStatus service = Some ''IS_REAL_TIME''),
                          dep_service =
                            \<lparr> svc_id = serviceTripID service,
                              svc_name = serviceName_service service,
                              svc_number = serviceNumber_service service,
                              svc_direction = serviceDirection service,
                              svc_operator = operator_service service,
                              svc_mode = mode_service service \<rparr>,
                          dep_wheelchairAccessible = wheelchairAccessible service,
                          dep_vehicle = veh \<rparr>)))"

text \<open>\<^verbatim>\<open>data.stops?.find((s) => s.code === stopCode)\<close>\<close>

definition findStop :: "StopLocation list option \<Rightarrow> string \<Rightarrow> StopLocation option" where
  "findStop stopList wanted = find (\<lambda>s. code s = Some wanted) (members stopList)"

text \<open>The body of the loop over \<^verbatim>\<open>data.embarkationStops\<close> in the later revision: \<^verbatim>\<open>stop\<close> is
  looked up, and no entry refers to it.\<close>

definition departuresOfStop ::
  "StopLocation list option \<Rightarrow> EmbarkationStop \<Rightarrow> error + FormattedDeparture list" where
  "departuresOfStop stopList embarkationStop =
     (let stop = findStop stopList (stopCode embarkationStop)
      in mapE formatDeparture (members (services_stop embarkationStop)))"

definition handleDepartures_response :: "DeparturesResponse \<Rightarrow> error + FormattedDeparture list" where
  "handleDepartures_response data =
     (case whenTruthy (error_departures data) of
        Some msg \<Rightarrow> Inl (Error (''Departures search failed: '' @ msg))
      | None \<Rightarrow>
          (case mapE (departuresOfStop (stops data)) (members (embarkationStops data)) of
             Inl e \<Rightarrow> Inl e
           | Inr perStop \<Rightarrow> Inr (concat perStop)))"

text \<open>
  The earlier revision of \<^verbatim>\<open>handleDepartures\<close> (the first copy of tripgo.ts). Its entries have
  the later revision's members and, beyond them, the stop code, the stop name looked up in
  \<^verbatim>\<open>data.stops\<close>, and four more members of the service.
\<close>

record FormattedDeparture_earlier =
  early_stopCode :: string
  early_stopName :: "string option"
  early_entry :: FormattedDeparture
  early_operatorID :: "string option"
  early_routeID :: "string option"
  early_color :: "Color option"
  early_textColor :: "Color option"

definition departuresOfStop_earlier ::
  "StopLocation list option \<Rightarrow> EmbarkationStop \<Rightarrow> error + FormattedDeparture_earlier list" where
  "departuresOfStop_earlier stopList embarkationStop =
     (let stop = findStop stopList (stopCode embarkationStop)
      in mapE (\<lambda>service.
                 case formatDeparture service of
                   Inl e \<Rightarrow> Inl e
                 | Inr entry \<Rightarrow>
                     Inr \<lparr> early_stopCode = stopCode embarkationStop,
                           early_stopName = Option.bind stop name,
                           early_entry = entry,
                           early_operatorID = operatorID service,
                           early_routeID = routeID service,
                           early_color = serviceColor service,
                           early_textColor = serviceTextColor service \<rparr>)
           (members (services_stop embarkationStop)))"

definition handleDepartures_response_earlier ::
  "DeparturesResponse \<Rightarrow> error + FormattedDeparture_earlier list" where
  "handleDepartures_response_earlier data =
     (case whenTruthy (error_departures data) of
        Some msg \<Rightarrow> Inl (Error (''Departures search failed: '' @ msg))
      | None \<Rightarrow>
          (case mapE (departuresOfStop_earlier (stops data)) (members (embarkationStops data)) of
             Inl e \<Rightarrow> Inl e
           | Inr perStop \<Rightarrow> Inr (concat perStop)))"

subsection \<open>Tool wrappers\<close>

text \<open>Every \<^verbatim>\<open>execute\<close> awaits its handler inside \<^verbatim>\<open>try\<close> and rethrows what it catches as
  \<^verbatim>\<open>new Error(`Error in ${tool}: ${error.message}`)\<close>.\<close>

definition tool_execute :: "string \<Rightarrow> error + 'a \<Rightarrow> error + 'a" where
  "tool_execute tool outcome =
     (case outcome of Inl e \<Rightarrow> Inl (ToolError tool e) | Inr v \<Rightarrow> Inr v)"


section \<open>Statements in the specification's words, and example inputs\<close>

subsection \<open>Trip selection as the specification describes it\<close>

text \<open>
  Section 4.4, steps 1 to 6: sort every group's trips ascending by weighted score with a stable
  sort; keep the first two of each group; a group's representative score is the score of its
  first trip; sort the groups ascending by representative score with a stable sort; keep the
  first \<open>N\<close> groups; flatten. (\<open>sort_key\<close> is the library's stable insertion sort.)
\<close>

definition spec_tripSelection :: "TripGroup list \<Rightarrow> nat \<Rightarrow> Trip list" where
  "spec_tripSelection gs N =
     (let bestTwo = map (\<lambda>g. take 2 (sort_key weightedScore (trips g))) gs;
          ranked = sort_key (\<lambda>ts. weightedScore (hd ts)) bestTwo
      in concat (take N ranked))"

text \<open>A group's best (lowest) score.\<close>

definition representativeScore :: "TripGroup \<Rightarrow> rat" where
  "representativeScore g = Min (weightedScore ` set (trips g))"

text \<open>What \<open>selectGroup\<close> returns on a group that has a trip.\<close>

definition chosen :: "TripGroup \<Rightarrow> SelectedGroup" where
  "chosen g = \<lparr> sel_trips = take 2 (sort_key weightedScore (trips g)),
               sel_score = weightedScore (hd (sort_key weightedScore (trips g))) \<rparr>"

text \<open>A number of seconds divided by 60 and truncated toward zero.\<close>

definition truncMinutes :: "int \<Rightarrow> int" where
  "truncMinutes secs =
     (if 0 \<le> secs then \<lfloor>(of_int secs :: rat) / 60\<rfloor> else \<lceil>(of_int secs :: rat) / 60\<rceil>)"

text \<open>A region's decoded polygon contains the coordinate: the test returns \<^verbatim>\<open>true\<close>.\<close>

definition regionContains ::
  "(string \<Rightarrow> error + (rat \<times> rat) list) \<Rightarrow> (position \<Rightarrow> position list \<Rightarrow> error + bool) \<Rightarrow>
   Coordinate \<Rightarrow> Region \<Rightarrow> bool" where
  "regionContains decode turf coordinate r =
     (coordinateInPolygon decode turf coordinate (polygon r) = Inr True)"

subsection \<open>Example inputs\<close>

text \<open>A host that knows the zone UTC only.\<close>

definition utcOnly :: tzdb where
  "utcOnly zone = (if zone = ''UTC'' then Some (\<lambda>t. 0) else None)"

text \<open>A trip without segments that leaves at 2025-07-18T09:00:00Z and takes 30 minutes.\<close>

definition exampleTrip :: "string \<Rightarrow> rat \<Rightarrow> Trip" where
  "exampleTrip i s =
     \<lparr> id_trip = i, arrive = 1752831000, depart = 1752829200, moneyCost = None,
       currencySymbol = None, caloriesCost = None, carbonCost = None, segments = [],
       weightedScore = s, saveURL = None \<rparr>"

text \<open>Three groups whose best scores are 5, 1 and 3.\<close>

definition exampleGroups :: "TripGroup list" where
  "exampleGroups =
     [\<lparr> trips = [exampleTrip ''a1'' 7, exampleTrip ''a2'' 5, exampleTrip ''a3'' 6] \<rparr>,
      \<lparr> trips = [exampleTrip ''b1'' 4, exampleTrip ''b2'' 1, exampleTrip ''b3'' 2] \<rparr>,
      \<lparr> trips = [exampleTrip ''c1'' 3] \<rparr>]"

definition exampleRouting :: RoutingResponse where
  "exampleRouting = \<lparr> error_routing = None, groups = Some exampleGroups, segmentTemplates = None \<rparr>"

definition routingWithEmptyGroup :: RoutingResponse where
  "routingWithEmptyGroup =
     \<lparr> error_routing = None,
       groups = Some [\<lparr> trips = [] \<rparr>, \<lparr> trips = [exampleTrip ''c1'' 3] \<rparr>],
       segmentTemplates = None \<rparr>"

text \<open>A segment of 150 seconds, and one that ends 30 seconds before it starts.\<close>

definition walkSegment :: SegmentReference where
  "walkSegment = \<lparr> segmentTemplateHashCode = 7, startTime = 1752829200, endTime = 1752829350,
                    serviceName = None, serviceNumber = None \<rparr>"

definition lateSegment :: SegmentReference where
  "lateSegment = \<lparr> segmentTemplateHashCode = 7, startTime = 1752829260, endTime = 1752829230,
                    serviceName = None, serviceNumber = None \<rparr>"

text \<open>
  Stand-ins for the two libraries, used in the examples only (the theorems hold for every
  \<open>decode\<close> and every \<open>turf\<close>). \<open>tableDecode\<close> lists what the polyline decoding gives on four
  strings: the empty string has no vertex, and the others are the unit square without and with
  its closing vertex, and the square between 2 and 3. \<open>rayCastTurf\<close> refuses a ring of fewer
  than four positions, as Turf's \<^verbatim>\<open>polygon\<close> does, and otherwise counts the edges a ray from the
  point crosses.
\<close>

definition tableDecode :: "string \<Rightarrow> error + (rat \<times> rat) list" where
  "tableDecode s =
     (if s = [] then Inr []
      else if s = ''???_ibE_ibE??~hbE'' then Inr [(0, 0), (0, 1), (1, 1), (1, 0)]
      else if s = ''???_ibE_ibE??~hbE~hbE?'' then Inr [(0, 0), (0, 1), (1, 1), (1, 0), (0, 0)]
      else if s = ''_seK_seK?_ibE_ibE??~hbE'' then Inr [(2, 2), (2, 3), (3, 3), (3, 2)]
      else Inl (Error ''not tabulated''))"

definition crosses :: "position \<Rightarrow> position \<Rightarrow> position \<Rightarrow> bool" where
  "crosses p a b =
     ((snd p < snd a) \<noteq> (snd p < snd b) \<and>
      fst p < (fst b - fst a) * (snd p - snd a) / (snd b - snd a) + fst a)"

fun oddCrossings :: "position \<Rightarrow> position list \<Rightarrow> bool" where
  "oddCrossings p (a # b # rest) = (crosses p a b \<noteq> oddCrossings p (b # rest))"
| "oddCrossings p _ = False"

definition rayCastTurf :: "position \<Rightarrow> position list \<Rightarrow> error + bool" where
  "rayCastTurf p ring =
     (if length ring < 4
      then Inl (Error ''Each LinearRing of a Polygon must have 4 or more Positions.'')
      else Inr (oddCrossings p ring))"

definition emptyRegion :: Region where
  "emptyRegion = \<lparr> name_region = ''Nowhere'', polygon = [], timezone_region = ''Europe/Berlin'' \<rparr>"

definition farRegion :: Region where
  "farRegion = \<lparr> name_region = ''Far'', polygon = ''_seK_seK?_ibE_ibE??~hbE'',
                  timezone_region = ''Europe/Berlin'' \<rparr>"

definition squareRegion :: Region where
  "squareRegion = \<lparr> name_region = ''Square'', polygon = ''???_ibE_ibE??~hbE'',
                     timezone_region = ''Australia/Sydney'' \<rparr>"

definition closedSquareRegion :: Region where
  "closedSquareRegion = \<lparr> name_region = ''Closed square'', polygon = ''???_ibE_ibE??~hbE~hbE?'',
                           timezone_region = ''Australia/Perth'' \<rparr>"

text \<open>
  A host whose zone database holds UTC and Australia/Sydney, the latter as it stands between
  October 2024 and October 2025: UTC+11 (daylight saving) until 2025-04-05T16:00:00Z, the
  instant at which clocks go back from 03:00 to 02:00 on 6 April, and UTC+10 after it.
  \<open>isoTable\<close> lists \<^verbatim>\<open>new Date(s).getTime()\<close> for three strings.
\<close>

definition sydney2025 :: tzdb where
  "sydney2025 zone =
     (if zone = ''Australia/Sydney''
      then Some (\<lambda>t. if t < 1743868800000 then 39600000 else 36000000)
      else if zone = ''UTC'' then Some (\<lambda>t. 0)
      else None)"

definition isoTable :: "string \<Rightarrow> int option" where
  "isoTable s =
     (if s = ''2025-04-06T01:00:00Z'' then Some 1743901200000
      else if s = ''2025-07-18T19:00:00Z'' then Some 1752865200000
      else if s = ''2025-01-15T12:00:00Z'' then Some 1736942400000
      else None)"

text \<open>The two query parameters that carry a time.\<close>

definition isTimeParam :: "string \<times> qvalue \<Rightarrow> bool" where
  "isTimeParam kv = (fst kv = ''departAfter'' \<or> fst kv = ''arriveBefore'')"

text \<open>A departures response: one stop, listed in \<^verbatim>\<open>stops\<close> with its name, and one service.\<close>

definition centralStop :: StopLocation where
  "centralStop =
     \<lparr> lat = -33883 / 1000, lng = 151206 / 1000, address = None, name = Some ''Central Station'',
       code = Some ''200060'', region = Some ''AU_NSW_Sydney'', services = None \<rparr>"

definition trainT1 :: ServiceInfo where
  "trainT1 =
     \<lparr> startTime_service = 1752829200, serviceTripID = ''T1-0900'',
       serviceName_service = Some ''North Shore Line'', serviceDirection = Some ''Hornsby'',
       serviceNumber_service = Some ''T1'', serviceColor = None, serviceTextColor = None,
       routeID = None, operatorID = None, operator_service = Some ''Sydney Trains'',
       mode_service = Some ''train'', wheelchairAccessible = Some True,
       realTimeStatus = Some ''IS_REAL_TIME'', realtimeVehicle = None,
       realTimeDeparture = Some 1752829260 \<rparr>"

definition exampleDepartures :: DeparturesResponse where
  "exampleDepartures =
     \<lparr> error_departures = None,
       embarkationStops = Some [\<lparr> stopCode = ''200060'', services_stop = Some [trainT1] \<rparr>],
       stops = Some [centralStop] \<rparr>"


text \<open>
  Whole numbers of seconds that a double holds exactly, as their difference is: on these the
  subtraction of the code is exact and its division by 60 rounds within the same whole minute.
  \<open>safeSpan\<close> is a span between two of them that is not negative.
\<close>

definition safeInteger :: "int \<Rightarrow> bool" where
  "safeInteger n = (\<bar>n\<bar> \<le> 9007199254740991)"

definition safeSpan :: "int \<Rightarrow> int \<Rightarrow> bool" where
  "safeSpan start finish =
     (safeInteger start \<and> safeInteger finish \<and> safeInteger (finish - start) \<and> 0 \<le> finish - start)"

text \<open>The example trip with one segment of 150 seconds.\<close>

definition walkingTrip :: Trip where
  "walkingTrip = exampleTrip ''w1'' 4 \<lparr> segments := [walkSegment] \<rparr>"

text \<open>
  Three bodies of \<^verbatim>\<open>regions.json\<close>: one with an error field and no regions, one that lists the
  unit square, and one that lists the unit square and carries an error field as well.
\<close>

definition failedRegions :: RegionsResponse where
  "failedRegions = \<lparr> error_regions = Some ''Invalid API key'', regions_data = None \<rparr>"

definition listedRegions :: RegionsResponse where
  "listedRegions = \<lparr> error_regions = None, regions_data = Some [squareRegion] \<rparr>"

definition flaggedRegions :: RegionsResponse where
  "flaggedRegions = \<lparr> error_regions = Some ''Invalid API key'', regions_data = Some [squareRegion] \<rparr>"


section \<open>Properties\<close>

subsection \<open>Sorting and mapping\<close>

text \<open>
With the comparator \<^verbatim>\<open>(a, b) => key(a) - key(b)\<close> the array sort is the library's stable
  sort by that key.
\<close>

lemma insert_cmp_insort_key:
  "insert_cmp (\<lambda>a b. k a - k b) x xs = insort_key k x xs"
  by (induction xs) auto

lemma array_sort_sort_key:
  "array_sort (\<lambda>a b. k a - k b) xs = sort_key k xs"
proof -
  have "insert_cmp (\<lambda>a b. k a - k b) = insort_key k"
    by (intro ext) (rule insert_cmp_insort_key)
  then show ?thesis
    by (simp add: array_sort_def sort_key_def)
qed

lemma sort_key_Nil_iff: "sort_key f xs = [] \<longleftrightarrow> xs = []"
  by (metis length_sort length_0_conv)

lemma insort_key_agree:
  "\<forall>y \<in> set (x # xs). f y = g y \<Longrightarrow> insort_key f x xs = insort_key g x xs"
  by (induction xs) auto

lemma sort_key_agree:
  "\<forall>y \<in> set xs. f y = g y \<Longrightarrow> sort_key f xs = sort_key g xs"
proof (induction xs)
  case Nil
  show ?case by simp
next
  case (Cons x xs)
  then have "sort_key f xs = sort_key g xs" by simp
  moreover have "\<forall>y \<in> set (x # sort_key g xs). f y = g y"
    using Cons.prems by simp
  ultimately show ?case
    by (simp add: insort_key_agree del: set_simps)
qed

lemma map_insort_key:
  "map h (insort_key (\<lambda>x. k (h x)) a xs) = insort_key k (h a) (map h xs)"
  by (induction xs) auto

lemma map_sort_key:
  "map h (sort_key (\<lambda>x. k (h x)) xs) = sort_key k (map h xs)"
  by (induction xs) (simp_all add: map_insort_key)

lemma hd_sort_key_Min:
  assumes "ts \<noteq> []"
  shows "f (hd (sort_key f ts)) = Min (f ` set ts)"
proof -
  obtain y ys where ys: "sort_key f ts = y # ys"
    using assms by (cases "sort_key f ts") (auto simp: sort_key_Nil_iff)
  have "sorted (map f (y # ys))"
    using sorted_sort_key [of f ts] by (simp add: ys)
  then have le: "\<forall>z \<in> set (y # ys). f y \<le> f z" by auto
  have set: "set (y # ys) = set ts"
    using set_sort [of f ts] by (simp add: ys)
  have "Min (f ` set ts) = f y"
  proof (rule Min_eqI)
    show "finite (f ` set ts)" by simp
    show "\<And>v. v \<in> f ` set ts \<Longrightarrow> f y \<le> v" using le set by auto
    show "f y \<in> f ` set ts" using set by auto
  qed
  then show ?thesis by (simp add: ys)
qed

lemma hd_take2: "xs \<noteq> [] \<Longrightarrow> hd (take 2 xs) = hd xs"
  by (cases xs) (simp_all add: numeral_2_eq_2)

lemma mapE_all_Inr:
  "\<forall>x \<in> set xs. f x = Inr (h x) \<Longrightarrow> mapE f xs = Inr (map h xs)"
  by (induction xs) auto

lemma mapE_some_Inl:
  "x \<in> set xs \<Longrightarrow> f x = Inl e \<Longrightarrow> \<forall>y \<in> set xs. f y = Inl e \<or> (\<exists>v. f y = Inr v) \<Longrightarrow> mapE f xs = Inl e"
  by (induction xs) (auto split: sum.splits)

lemma mapE_Inr_map:
  "mapE f xs = Inr ys \<Longrightarrow> \<forall>x y. f x = Inr y \<longrightarrow> p y = q x \<Longrightarrow> map p ys = map q xs"
  by (induction xs arbitrary: ys) (auto split: sum.splits)

subsection \<open>Whole minutes\<close>

text \<open>
On integers \<open>div\<close> rounds toward negative infinity, as \<^verbatim>\<open>Math.floor\<close> does.
\<close>

lemma floorMinutes_div: "floorMinutes s = s div 60"
  unfolding floorMinutes_def
  by (metis floor_divide_of_int_eq of_int_numeral)

lemma truncMinutes_eq: "truncMinutes s = (if 0 \<le> s then s div 60 else - ((- s) div 60))"
proof -
  have "\<lceil>(of_int s :: rat) / 60\<rceil> = - \<lfloor>(of_int (- s) :: rat) / 60\<rfloor>"
    by (simp add: ceiling_def)
  also have "\<dots> = - ((- s) div 60)"
    by (metis floor_divide_of_int_eq of_int_numeral)
  finally show ?thesis
    using floorMinutes_div [of s] by (simp add: truncMinutes_def floorMinutes_def)
qed

lemma floor_trunc_iff: "floorMinutes s = truncMinutes s \<longleftrightarrow> 0 \<le> s \<or> s mod 60 = 0"
  unfolding floorMinutes_div truncMinutes_eq by auto presburger+

subsection \<open>Trip selection\<close>

lemma selectGroup_nonempty:
  "trips g \<noteq> [] \<Longrightarrow> selectGroup g = Inr (chosen g)"
  by (cases "sort_key weightedScore (trips g)")
     (auto simp: selectGroup_def chosen_def array_sort_sort_key Let_def sort_key_Nil_iff)

lemma selectGroup_empty:
  "trips g = [] \<Longrightarrow> selectGroup g = Inl TypeError"
  by (simp add: selectGroup_def array_sort_def)

lemma chosen_score:
  "trips g \<noteq> [] \<Longrightarrow> sel_score (chosen g) = weightedScore (hd (sel_trips (chosen g)))"
  by (cases "sort_key weightedScore (trips g)") (auto simp: chosen_def sort_key_Nil_iff)

lemma selectedGroups_spec:
  assumes nonempty: "\<forall>g \<in> set gs. trips g \<noteq> []"
    and run: "selectedGroups (Some gs) (Some (int N)) = Inr sel"
  shows "concat (map sel_trips sel) = spec_tripSelection gs N"
proof -
  define bestTwo where "bestTwo = map (\<lambda>g. take 2 (sort_key weightedScore (trips g))) gs"
  have m: "mapE selectGroup gs = Inr (map chosen gs)"
    using nonempty by (intro mapE_all_Inr) (simp add: selectGroup_nonempty)
  have sel: "sel = take N (sort_key sel_score (map chosen gs))"
    using run by (simp add: selectedGroups_def m array_sort_sort_key)
  have b: "map sel_trips (map chosen gs) = bestTwo"
    by (simp add: bestTwo_def chosen_def)
  have agree: "sort_key sel_score (map chosen gs)
        = sort_key (\<lambda>s. weightedScore (hd (sel_trips s))) (map chosen gs)"
    using nonempty by (intro sort_key_agree) (auto simp: chosen_score)
  have "map sel_trips (sort_key (\<lambda>s. weightedScore (hd (sel_trips s))) (map chosen gs))
        = sort_key (\<lambda>ts. weightedScore (hd ts)) (map sel_trips (map chosen gs))"
    by (rule map_sort_key)
  then have ranked: "map sel_trips (sort_key sel_score (map chosen gs))
        = sort_key (\<lambda>ts. weightedScore (hd ts)) bestTwo"
    unfolding b agree .
  have "map sel_trips sel = take N (map sel_trips (sort_key sel_score (map chosen gs)))"
    by (simp add: sel take_map)
  then have "map sel_trips sel = take N (sort_key (\<lambda>ts. weightedScore (hd ts)) bestTwo)"
    unfolding ranked .
  then show ?thesis
    by (simp add: spec_tripSelection_def bestTwo_def)
qed

lemma selectedGroups_empty_group:
  assumes "g \<in> set gs" "trips g = []"
  shows "selectedGroups (Some gs) limit = Inl TypeError"
proof -
  have "\<forall>y \<in> set gs. selectGroup y = Inl TypeError \<or> (\<exists>v. selectGroup y = Inr v)"
    by (auto simp: selectGroup_def Let_def split: list.splits)
  then have "mapE selectGroup gs = Inl TypeError"
    using assms by (intro mapE_some_Inl [of g]) (simp_all add: selectGroup_empty)
  then show ?thesis by (simp add: selectedGroups_def)
qed

lemma formatTrip_fields:
  "formatTrip tz templates timezone trip = Inr ft \<Longrightarrow>
     ft_score ft = weightedScore trip \<and> ft_id ft = id_trip trip \<and>
     ft_totalDuration ft = floorMinutes (arrive trip - depart trip) \<and>
     ft_segments ft = map (formatSegment templates) (segments trip)"
  by (auto simp: formatTrip_def Let_def split: sum.splits)

lemma spec_tripSelection_three:
  assumes "trips g1 \<noteq> []" "trips g2 \<noteq> []" "trips g3 \<noteq> []"
    and "representativeScore g1 = 5" "representativeScore g2 = 1" "representativeScore g3 = 3"
  shows "spec_tripSelection [g1, g2, g3] 2 =
         take 2 (sort_key weightedScore (trips g2)) @ take 2 (sort_key weightedScore (trips g3))"
proof -
  define b where "b = (\<lambda>g::TripGroup. take 2 (sort_key weightedScore (trips g)))"
  have k: "weightedScore (hd (b g)) = representativeScore g" if "trips g \<noteq> []" for g
    using that
    by (simp add: b_def hd_take2 sort_key_Nil_iff hd_sort_key_Min representativeScore_def)
  have k1: "weightedScore (hd (b g1)) = 5" and k2: "weightedScore (hd (b g2)) = 1"
    and k3: "weightedScore (hd (b g3)) = 3"
    using assms by (simp_all add: k)
  have ranked: "sort_key (\<lambda>ts. weightedScore (hd ts)) [b g1, b g2, b g3] = [b g2, b g3, b g1]"
    by (simp add: k1 k2 k3)
  have "spec_tripSelection [g1, g2, g3] 2 =
        concat (take 2 (sort_key (\<lambda>ts. weightedScore (hd ts)) [b g1, b g2, b g3]))"
    by (simp add: spec_tripSelection_def b_def)
  also have "\<dots> = b g2 @ b g3"
    unfolding ranked by (simp add: numeral_2_eq_2)
  finally show ?thesis by (simp add: b_def)
qed

text \<open>
  Claim C1. For a routing response without an upstream error whose groups all hold at least one
  trip, and a limit \<open>N\<close> that is a count, the formatted output is the per-trip formatting, in
  order, of the trips the specification's six steps select: each group's trips stably sorted
  ascending by weighted score, at most the first two kept, the groups stably ranked ascending by
  their best trip's score, the first \<open>N\<close> groups kept, and the result flattened with group order
  and within-group order preserved. In particular the identifiers and scores of the output are
  those of that selection; and for three groups with representative scores 5, 1, 3 and a limit
  of 2 the selection is the best two trips of the group scoring 1 followed by the best two of
  the group scoring 3. (The per-trip formatting fails when the host does not know the display
  time zone; a group without trips is the subject of C5.)
\<close>

theorem C1_trip_selection:
  assumes "whenTruthy (error_routing data) = None"
    and "groups data = Some gs"
    and "\<forall>g \<in> set gs. trips g \<noteq> []"
  shows "handleRouting_response tz data (Some (int N)) timezone =
           mapE (formatTrip tz (segmentTemplates data) timezone) (spec_tripSelection gs N)
       \<and> (\<forall>out. handleRouting_response tz data (Some (int N)) timezone = Inr out \<longrightarrow>
             map ft_id out = map id_trip (spec_tripSelection gs N) \<and>
             map ft_score out = map weightedScore (spec_tripSelection gs N))
       \<and> (\<forall>g1 g2 g3. gs = [g1, g2, g3] \<and> N = 2 \<and> representativeScore g1 = 5 \<and>
             representativeScore g2 = 1 \<and> representativeScore g3 = 3 \<longrightarrow>
             spec_tripSelection gs N =
               take 2 (sort_key weightedScore (trips g2)) @ take 2 (sort_key weightedScore (trips g3)))"
proof -
  obtain sel where sel: "selectedGroups (Some gs) (Some (int N)) = Inr sel"
    using assms(3)
    by (simp add: selectedGroups_def mapE_all_Inr [of gs selectGroup chosen] selectGroup_nonempty)
  have flat: "concat (map sel_trips sel) = spec_tripSelection gs N"
    using assms(3) sel by (rule selectedGroups_spec)
  have main: "handleRouting_response tz data (Some (int N)) timezone =
           mapE (formatTrip tz (segmentTemplates data) timezone) (spec_tripSelection gs N)"
    by (simp add: handleRouting_response_def assms(1,2) sel flat)
  have fields: "map ft_id out = map id_trip (spec_tripSelection gs N) \<and>
             map ft_score out = map weightedScore (spec_tripSelection gs N)"
    if "handleRouting_response tz data (Some (int N)) timezone = Inr out" for out
  proof -
    have m: "mapE (formatTrip tz (segmentTemplates data) timezone) (spec_tripSelection gs N) = Inr out"
      using that main by simp
    show ?thesis
      using mapE_Inr_map [OF m, of ft_id id_trip] mapE_Inr_map [OF m, of ft_score weightedScore]
      by (auto dest: formatTrip_fields)
  qed
  have three: "spec_tripSelection gs N =
               take 2 (sort_key weightedScore (trips g2)) @ take 2 (sort_key weightedScore (trips g3))"
    if "gs = [g1, g2, g3]" "N = 2" "representativeScore g1 = 5"
       "representativeScore g2 = 1" "representativeScore g3 = 3" for g1 g2 g3
    using that assms(3) by (simp add: spec_tripSelection_three)
  show ?thesis using main fields three by blast
qed

text \<open>
  The example of the specification: groups scoring 5, 1 and 3 with a limit of 2 give the trips
  scoring 1 and 2 of the second group, then the only trip of the third.
\<close>

theorem C1_trip_selection_witness:
  "whenTruthy (error_routing exampleRouting) = None
   \<and> groups exampleRouting = Some exampleGroups
   \<and> list_all (\<lambda>g. trips g \<noteq> []) exampleGroups
   \<and> map representativeScore exampleGroups = [5, 1, 3]
   \<and> (\<exists>out. handleRouting_response utcOnly exampleRouting (Some 2) ''UTC'' = Inr out
         \<and> map ft_id out = [''b2'', ''b3'', ''c1'']
         \<and> map ft_score out = [1, 2, 3])"
proof -
  have h1: "whenTruthy (error_routing exampleRouting) = None"
    by (simp add: exampleRouting_def)
  have h2: "groups exampleRouting = Some exampleGroups"
    by (simp add: exampleRouting_def)
  have h3: "\<forall>g \<in> set exampleGroups. trips g \<noteq> []"
    by (simp add: exampleGroups_def)
  have reps: "map representativeScore exampleGroups = [5, 1, 3]"
    by (simp add: exampleGroups_def representativeScore_def exampleTrip_def)
  have sel: "spec_tripSelection exampleGroups 2 =
      [exampleTrip ''b2'' 1, exampleTrip ''b3'' 2, exampleTrip ''c1'' 3]"
    by (simp add: spec_tripSelection_def exampleGroups_def exampleTrip_def numeral_2_eq_2)
  have run: "handleRouting_response utcOnly exampleRouting (Some (int 2)) ''UTC'' =
      mapE (formatTrip utcOnly (segmentTemplates exampleRouting) ''UTC'') (spec_tripSelection exampleGroups 2)"
    using C1_trip_selection [OF h1 h2 h3, of utcOnly 2 "''UTC''"] by blast
  have ok: "\<exists>out. handleRouting_response utcOnly exampleRouting (Some 2) ''UTC'' = Inr out
         \<and> map ft_id out = [''b2'', ''b3'', ''c1'']
         \<and> map ft_score out = [1, 2, 3]"
    using run
    by (simp add: sel formatTrip_def toISOStringInTimezone_def utcOnly_def validTime_def
        exampleTrip_def Let_def)
  show ?thesis
    using h1 h2 h3 reps ok by (simp add: list_all_iff)
qed

text \<open>
  Claim C5, as amended. When the response has no upstream error and some group has an empty
  \<^verbatim>\<open>trips\<close> list, the group is not skipped: reading the score of the missing first trip throws
  a TypeError inside the map over the groups, before any group is ranked or any trip is
  formatted, and the whole operation fails, whatever the other groups, the limit and the time
  zone are.
\<close>

theorem C5_empty_group_throws:
  assumes "whenTruthy (error_routing data) = None"
    and "groups data = Some gs"
    and "g \<in> set gs"
    and "trips g = []"
  shows "handleRouting_response tz data limit timezone = Inl TypeError"
  using selectedGroups_empty_group [OF assms(3,4)]
  by (simp add: handleRouting_response_def assms(1,2))

theorem C5_empty_group_throws_witness:
  "whenTruthy (error_routing routingWithEmptyGroup) = None
   \<and> groups routingWithEmptyGroup = Some [\<lparr> trips = [] \<rparr>, \<lparr> trips = [exampleTrip ''c1'' 3] \<rparr>]
   \<and> trips (\<lparr> trips = [] \<rparr> :: TripGroup) = []
   \<and> handleRouting_response utcOnly routingWithEmptyGroup (Some 3) ''UTC'' = Inl TypeError
   \<and> handleRouting_response utcOnly routingWithEmptyGroup None ''Australia/Sydney'' = Inl TypeError"
proof -
  have h1: "whenTruthy (error_routing routingWithEmptyGroup) = None"
    by (simp add: routingWithEmptyGroup_def)
  have h2: "groups routingWithEmptyGroup = Some [\<lparr> trips = [] \<rparr>, \<lparr> trips = [exampleTrip ''c1'' 3] \<rparr>]"
    by (simp add: routingWithEmptyGroup_def)
  have h3: "\<lparr> trips = [] \<rparr> \<in> set [\<lparr> trips = [] \<rparr>, \<lparr> trips = [exampleTrip ''c1'' 3] \<rparr>]"
    by simp
  have h4: "trips (\<lparr> trips = [] \<rparr> :: TripGroup) = []" by simp
  show ?thesis
    using h1 h2 h4 C5_empty_group_throws [OF h1 h2 h3 h4, of utcOnly "Some 3" "''UTC''"]
      C5_empty_group_throws [OF h1 h2 h3 h4, of utcOnly None "''Australia/Sydney''"]
    by blast
qed

text \<open>
  C5 as stated fails: a response with an empty group and a group of one trip produces no
  output, although the same response without the empty group produces the trip.
\<close>

theorem C5_skip_counterexample:
  "handleRouting_response utcOnly routingWithEmptyGroup (Some 3) ''UTC'' = Inl TypeError
   \<and> (\<exists>out. handleRouting_response utcOnly
               (routingWithEmptyGroup \<lparr> groups := Some [\<lparr> trips = [exampleTrip ''c1'' 3] \<rparr>] \<rparr>)
               (Some 3) ''UTC'' = Inr out
            \<and> map ft_id out = [''c1''])"
  by (simp add: handleRouting_response_def routingWithEmptyGroup_def selectedGroups_def
      selectGroup_def array_sort_def formatTrip_def toISOStringInTimezone_def utcOnly_def
      validTime_def exampleTrip_def)

text \<open>
  Claim C4. For every formatted segment whose times are whole seconds that a double holds
  exactly and whose span is not negative (the only case expected), the duration in whole minutes
  equals \<open>(endTime - startTime) / 60\<close> truncated toward zero; for every formatted trip the total
  duration equals \<open>(arrive - depart) / 60\<close> computed the same way, and so does the duration of
  each of its segments. On these spans truncation toward zero and rounding toward negative
  infinity (\<open>div\<close>, the code's \<^verbatim>\<open>Math.floor\<close>) agree.
\<close>

theorem C4_duration_whole_minutes:
  "(safeSpan (startTime segment) (endTime segment) \<longrightarrow>
        seg_duration (formatSegment templates segment)
          = truncMinutes (endTime segment - startTime segment)
        \<and> truncMinutes (endTime segment - startTime segment)
          = (endTime segment - startTime segment) div 60)
   \<and> (\<forall>ft. formatTrip tz templates timezone trip = Inr ft
          \<and> safeSpan (depart trip) (arrive trip) \<longrightarrow>
        ft_totalDuration ft = truncMinutes (arrive trip - depart trip)
        \<and> truncMinutes (arrive trip - depart trip) = (arrive trip - depart trip) div 60)
   \<and> (\<forall>ft. formatTrip tz templates timezone trip = Inr ft \<longrightarrow>
        length (ft_segments ft) = length (segments trip)
        \<and> (\<forall>i < length (segments trip).
              safeSpan (startTime (segments trip ! i)) (endTime (segments trip ! i)) \<longrightarrow>
              seg_duration (ft_segments ft ! i)
                = truncMinutes (endTime (segments trip ! i) - startTime (segments trip ! i))))"
proof -
  have agree: "truncMinutes (b - a) = (b - a) div 60" if "safeSpan a b" for a b
    using that by (simp add: truncMinutes_eq safeSpan_def)
  have seg: "seg_duration (formatSegment templates s) = truncMinutes (endTime s - startTime s)"
    if "safeSpan (startTime s) (endTime s)" for s
    using agree [OF that] by (simp add: formatSegment_def Let_def floorMinutes_div)
  have total: "ft_totalDuration ft = truncMinutes (arrive trip - depart trip)"
    if "formatTrip tz templates timezone trip = Inr ft" "safeSpan (depart trip) (arrive trip)" for ft
    using formatTrip_fields [OF that(1)] agree [OF that(2)] by (simp add: floorMinutes_div)
  have segs: "length (ft_segments ft) = length (segments trip)
        \<and> (\<forall>i < length (segments trip).
              safeSpan (startTime (segments trip ! i)) (endTime (segments trip ! i)) \<longrightarrow>
              seg_duration (ft_segments ft ! i)
                = truncMinutes (endTime (segments trip ! i) - startTime (segments trip ! i)))"
    if "formatTrip tz templates timezone trip = Inr ft" for ft
    using formatTrip_fields [OF that] by (simp add: seg)
  show ?thesis using agree seg total segs by blast
qed

theorem C4_duration_whole_minutes_witness:
  "safeSpan (startTime walkSegment) (endTime walkSegment)
   \<and> seg_duration (formatSegment None walkSegment) = 2
   \<and> truncMinutes (endTime walkSegment - startTime walkSegment) = 2
   \<and> safeSpan (depart walkingTrip) (arrive walkingTrip)
   \<and> (\<exists>ft. formatTrip utcOnly None ''UTC'' walkingTrip = Inr ft
          \<and> ft_totalDuration ft = 30
          \<and> truncMinutes (arrive walkingTrip - depart walkingTrip) = 30
          \<and> map seg_duration (ft_segments ft) = [2])"
proof -
  note inst = C4_duration_whole_minutes [of walkSegment None utcOnly "''UTC''" walkingTrip]
  have s1: "safeSpan (startTime walkSegment) (endTime walkSegment)"
    by (simp add: safeSpan_def safeInteger_def walkSegment_def)
  have s2: "safeSpan (depart walkingTrip) (arrive walkingTrip)"
    by (simp add: safeSpan_def safeInteger_def walkingTrip_def exampleTrip_def)
  have t: "truncMinutes (endTime walkSegment - startTime walkSegment) = 2"
    using inst s1 by (simp add: walkSegment_def)
  have a: "seg_duration (formatSegment None walkSegment) = 2"
    using inst s1 t by simp
  obtain ft where ft: "formatTrip utcOnly None ''UTC'' walkingTrip = Inr ft"
    by (simp add: formatTrip_def toISOStringInTimezone_def utcOnly_def validTime_def
        walkingTrip_def exampleTrip_def)
  have tt: "truncMinutes (arrive walkingTrip - depart walkingTrip) = 30"
    using inst ft s2 by (simp add: walkingTrip_def exampleTrip_def)
  have c: "ft_totalDuration ft = 30"
    using inst ft s2 tt by simp
  have len: "length (ft_segments ft) = 1"
    using inst ft by (simp add: walkingTrip_def)
  have "seg_duration (ft_segments ft ! 0) = 2"
    using inst ft s1 t by (simp add: walkingTrip_def)
  then have d: "map seg_duration (ft_segments ft) = [2]"
    using len by (cases "ft_segments ft") simp_all
  show ?thesis using s1 a t s2 ft c tt d by simp
qed

text \<open>Outside the expected case the code rounds toward negative infinity: a segment that ends
  30 seconds before it starts gets -1 minute, where truncation toward zero gives 0.\<close>

lemma floorMinutes_negative_span:
  "seg_duration (formatSegment None lateSegment) = - 1
   \<and> truncMinutes (endTime lateSegment - startTime lateSegment) = 0"
  by (simp add: formatSegment_def findTemplate_def floorMinutes_div truncMinutes_eq lateSegment_def)

subsection \<open>Point in polygon and region lookup\<close>

lemma closePolygon_closed:
  "ring \<noteq> [] \<Longrightarrow> hd ring = last ring \<Longrightarrow> closePolygon ring = Inr ring"
  by (cases ring) (simp_all add: closePolygon_def)

lemma closePolygon_open:
  "ring \<noteq> [] \<Longrightarrow> hd ring \<noteq> last ring \<Longrightarrow> closePolygon ring = Inr (ring @ [hd ring])"
  by (cases ring) (auto simp: closePolygon_def prod_eq_iff)

lemma closePolygon_idem:
  assumes "closePolygon ring = Inr ring'"
  shows "closePolygon ring' = Inr ring'"
proof (cases ring)
  case Nil
  then show ?thesis using assms by (simp add: closePolygon_def)
next
  case (Cons p ps)
  show ?thesis
  proof (cases "hd ring = last ring")
    case True
    then have "ring' = ring" using assms Cons closePolygon_closed [of ring] by simp
    then show ?thesis using True Cons by (simp add: closePolygon_closed)
  next
    case False
    then have r: "ring' = ring @ [hd ring]" using assms Cons closePolygon_open [of ring] by simp
    have "hd ring' = last ring'" using Cons by (simp add: r)
    moreover have "ring' \<noteq> []" by (simp add: r)
    ultimately show ?thesis by (rule closePolygon_closed [rotated])
  qed
qed

lemma array_find_decides:
  "array_find p xs =
     (case find (\<lambda>x. p x \<noteq> Inr False) xs of
        None \<Rightarrow> Inr None
      | Some x \<Rightarrow> (case p x of Inl e \<Rightarrow> Inl e | Inr b \<Rightarrow> Inr (Some x)))"
proof (induction xs)
  case Nil
  show ?case by simp
next
  case (Cons x xs)
  show ?case
  proof (cases "p x")
    case (Inl e)
    then show ?thesis by simp
  next
    case (Inr b)
    then show ?thesis using Cons.IH by (cases b) simp_all
  qed
qed

lemma array_find_total:
  assumes "\<forall>x \<in> set xs. \<not> isl (p x)"
  shows "array_find p xs = Inr (find (\<lambda>x. p x = Inr True) xs)"
  using assms
proof (induction xs)
  case Nil
  show ?case by simp
next
  case (Cons x xs)
  then obtain b where b: "p x = Inr b" by (cases "p x") auto
  show ?case using Cons b by (cases b) simp_all
qed

text \<open>
The containment tests of the example regions.
\<close>

lemma square_tests:
  "coordinateInPolygon tableDecode rayCastTurf \<lparr> lat = 1/2, lng = 1/2 \<rparr> (polygon farRegion) = Inr False"
  "coordinateInPolygon tableDecode rayCastTurf \<lparr> lat = 1/2, lng = 1/2 \<rparr> (polygon squareRegion) = Inr True"
  "coordinateInPolygon tableDecode rayCastTurf \<lparr> lat = 1/2, lng = 1/2 \<rparr> (polygon closedSquareRegion) = Inr True"
  "coordinateInPolygon tableDecode rayCastTurf \<lparr> lat = 1/2, lng = 1/2 \<rparr> (polygon emptyRegion) = Inl TypeError"
  by (simp_all add: coordinateInPolygon_def tableDecode_def closePolygon_def rayCastTurf_def
      crosses_def farRegion_def squareRegion_def closedSquareRegion_def emptyRegion_def)

lemma outside_tests:
  "coordinateInPolygon tableDecode rayCastTurf \<lparr> lat = 5, lng = 5 \<rparr> (polygon farRegion) = Inr False"
  "coordinateInPolygon tableDecode rayCastTurf \<lparr> lat = 5, lng = 5 \<rparr> (polygon squareRegion) = Inr False"
  "coordinateInPolygon tableDecode rayCastTurf \<lparr> lat = 5, lng = 5 \<rparr> (polygon closedSquareRegion) = Inr False"
  by (simp_all add: coordinateInPolygon_def tableDecode_def closePolygon_def rayCastTurf_def
      crosses_def farRegion_def squareRegion_def closedSquareRegion_def)

text \<open>
  Claim C2, as amended. The lookup tests the regions in list order. The first region whose
  test does not return \<^verbatim>\<open>false\<close> decides: the region is returned when its test returns \<^verbatim>\<open>true\<close>,
  and the exception propagates when its test throws; when every test returns \<^verbatim>\<open>false\<close> the result
  is none. Hence, when no region's test throws, the result is the first region in list order
  whose decoded polygon contains the coordinate, it is none (not an error) exactly when no
  region's polygon contains the coordinate, and in that case the routing caller's time zone is
  \<^verbatim>\<open>"UTC"\<close>.
\<close>

theorem C2_first_match:
  fixes decode turf coordinate
  defines "test \<equiv> \<lambda>r. coordinateInPolygon decode turf coordinate (polygon r)"
  shows "getRegionForCoordinate decode turf coordinate (Some regions) =
           (case find (\<lambda>r. test r \<noteq> Inr False) regions of
              None \<Rightarrow> Inr None
            | Some r \<Rightarrow> (case test r of Inl e \<Rightarrow> Inl e | Inr b \<Rightarrow> Inr (Some r)))
       \<and> ((\<forall>r \<in> set regions. \<not> isl (test r)) \<longrightarrow>
            (\<exists>found. getRegionForCoordinate decode turf coordinate (Some regions) = Inr found
               \<and> (\<forall>r. found = Some r \<longleftrightarrow>
                     (\<exists>i < length regions. regions ! i = r
                        \<and> regionContains decode turf coordinate (regions ! i)
                        \<and> (\<forall>j < i. \<not> regionContains decode turf coordinate (regions ! j))))
               \<and> (found = None \<longleftrightarrow> (\<forall>r \<in> set regions. \<not> regionContains decode turf coordinate r))
               \<and> (found = None \<longrightarrow> routingTimezone found = ''UTC'')))"
proof -
  have run: "getRegionForCoordinate decode turf coordinate (Some regions) = array_find test regions"
    by (simp add: getRegionForCoordinate_def fetchRegions_response_def test_def)
  have general: "getRegionForCoordinate decode turf coordinate (Some regions) =
           (case find (\<lambda>r. test r \<noteq> Inr False) regions of
              None \<Rightarrow> Inr None
            | Some r \<Rightarrow> (case test r of Inl e \<Rightarrow> Inl e | Inr b \<Rightarrow> Inr (Some r)))"
    unfolding run by (rule array_find_decides)
  have normal: "\<exists>found. getRegionForCoordinate decode turf coordinate (Some regions) = Inr found
               \<and> (\<forall>r. found = Some r \<longleftrightarrow>
                     (\<exists>i < length regions. regions ! i = r
                        \<and> regionContains decode turf coordinate (regions ! i)
                        \<and> (\<forall>j < i. \<not> regionContains decode turf coordinate (regions ! j))))
               \<and> (found = None \<longleftrightarrow> (\<forall>r \<in> set regions. \<not> regionContains decode turf coordinate r))
               \<and> (found = None \<longrightarrow> routingTimezone found = ''UTC'')"
    if ok: "\<forall>r \<in> set regions. \<not> isl (test r)"
  proof -
    define found where "found = find (regionContains decode turf coordinate) regions"
    have c: "regionContains decode turf coordinate = (\<lambda>r. test r = Inr True)"
      by (intro ext) (simp add: regionContains_def test_def)
    have r: "getRegionForCoordinate decode turf coordinate (Some regions) = Inr found"
      unfolding run found_def c using ok by (rule array_find_total)
    have s: "found = Some r \<longleftrightarrow>
                     (\<exists>i < length regions. regions ! i = r
                        \<and> regionContains decode turf coordinate (regions ! i)
                        \<and> (\<forall>j < i. \<not> regionContains decode turf coordinate (regions ! j)))" for r
      unfolding found_def find_Some_iff by auto
    have n: "found = None \<longleftrightarrow> (\<forall>r \<in> set regions. \<not> regionContains decode turf coordinate r)"
      unfolding found_def find_None_iff by auto
    have u: "found = None \<longrightarrow> routingTimezone found = ''UTC''"
      by (simp add: routingTimezone_def)
    show ?thesis using r s n u by blast
  qed
  show ?thesis using general normal by blast
qed

theorem C2_first_match_witness:
  "list_all (\<lambda>r. \<not> isl (coordinateInPolygon tableDecode rayCastTurf \<lparr> lat = 1/2, lng = 1/2 \<rparr> (polygon r)))
     [farRegion, squareRegion, closedSquareRegion]
   \<and> getRegionForCoordinate tableDecode rayCastTurf \<lparr> lat = 1/2, lng = 1/2 \<rparr>
        (Some [farRegion, squareRegion, closedSquareRegion]) = Inr (Some squareRegion)
   \<and> routingTimezone (Some squareRegion) = ''Australia/Sydney''
   \<and> list_all (\<lambda>r. \<not> isl (coordinateInPolygon tableDecode rayCastTurf \<lparr> lat = 5, lng = 5 \<rparr> (polygon r)))
     [farRegion, squareRegion, closedSquareRegion]
   \<and> getRegionForCoordinate tableDecode rayCastTurf \<lparr> lat = 5, lng = 5 \<rparr>
        (Some [farRegion, squareRegion, closedSquareRegion]) = Inr None
   \<and> routingTimezone None = ''UTC''"
proof -
  let ?rs = "[farRegion, squareRegion, closedSquareRegion]"
  have inside: "getRegionForCoordinate tableDecode rayCastTurf \<lparr> lat = 1/2, lng = 1/2 \<rparr> (Some ?rs)
      = Inr (Some squareRegion)"
    unfolding C2_first_match [THEN conjunct1] by (simp add: square_tests)
  have outside: "getRegionForCoordinate tableDecode rayCastTurf \<lparr> lat = 5, lng = 5 \<rparr> (Some ?rs)
      = Inr None"
    unfolding C2_first_match [THEN conjunct1] by (simp add: outside_tests)
  have zone: "routingTimezone (Some squareRegion) = ''Australia/Sydney''"
    by (simp add: routingTimezone_def squareRegion_def)
  have utc: "routingTimezone None = ''UTC''"
    by (simp add: routingTimezone_def)
  show ?thesis
    using inside outside zone utc by (simp add: square_tests outside_tests)
qed

text \<open>
  C2 as stated fails on a region list that holds a region whose polygon decodes to no vertex:
  the lookup throws a TypeError, both when no region contains the coordinate and when a later
  region does.
\<close>

theorem C2_counterexample:
  "getRegionForCoordinate tableDecode rayCastTurf \<lparr> lat = 1/2, lng = 1/2 \<rparr> (Some [emptyRegion])
     = Inl TypeError
   \<and> \<not> regionContains tableDecode rayCastTurf \<lparr> lat = 1/2, lng = 1/2 \<rparr> emptyRegion
   \<and> getRegionForCoordinate tableDecode rayCastTurf \<lparr> lat = 1/2, lng = 1/2 \<rparr>
        (Some [emptyRegion, squareRegion]) = Inl TypeError
   \<and> regionContains tableDecode rayCastTurf \<lparr> lat = 1/2, lng = 1/2 \<rparr> squareRegion"
  by (simp add: getRegionForCoordinate_def fetchRegions_response_def regionContains_def square_tests)

text \<open>
  Claim C7. For a polygon of at least three vertices given unclosed (first and last vertex
  differ), the containment test returns the same result on the encoding of the vertices as
  given and on the encoding of the vertices with the first one repeated at the end; and closing
  is idempotent: closing the ring that closing produced leaves it unchanged.
\<close>

theorem C7_closure_idempotent:
  assumes "decode given = Inr vs"
    and "decode preclosed = Inr (vs @ [hd vs])"
    and "3 \<le> length vs"
    and "hd vs \<noteq> last vs"
  shows "coordinateInPolygon decode turf coordinate preclosed =
           coordinateInPolygon decode turf coordinate given
       \<and> (\<forall>ring ring'. closePolygon ring = Inr ring' \<longrightarrow> closePolygon ring' = Inr ring')"
proof -
  let ?swap = "\<lambda>coord :: rat \<times> rat. (snd coord, fst coord)"
  have ne: "vs \<noteq> []" using assms(3) by auto
  have inj: "?swap a = ?swap b \<longleftrightarrow> a = b" for a b by (auto simp: prod_eq_iff)
  have hd_map: "hd (map ?swap vs) = ?swap (hd vs)" using ne by (simp add: hd_map)
  have last_map: "last (map ?swap vs) = ?swap (last vs)" using ne by (simp add: last_map)
  have "hd (map ?swap vs) \<noteq> last (map ?swap vs)"
    unfolding hd_map last_map inj using assms(4) .
  then have open_ring: "closePolygon (map ?swap vs) = Inr (map ?swap vs @ [hd (map ?swap vs)])"
    using ne by (intro closePolygon_open) simp_all
  have "map ?swap (vs @ [hd vs]) = map ?swap vs @ [hd (map ?swap vs)]"
    by (simp add: hd_map)
  moreover have "closePolygon (map ?swap vs @ [hd (map ?swap vs)]) = Inr (map ?swap vs @ [hd (map ?swap vs)])"
    using open_ring by (rule closePolygon_idem)
  ultimately have closed_ring:
    "closePolygon (map ?swap (vs @ [hd vs])) = Inr (map ?swap vs @ [hd (map ?swap vs)])"
    by simp
  have "coordinateInPolygon decode turf coordinate preclosed =
           coordinateInPolygon decode turf coordinate given"
    by (simp only: coordinateInPolygon_def assms(1,2) closed_ring open_ring sum.case)
  then show ?thesis using closePolygon_idem by blast
qed

theorem C7_closure_idempotent_witness:
  "tableDecode ''???_ibE_ibE??~hbE'' = Inr [(0, 0), (0, 1), (1, 1), (1, 0)]
   \<and> tableDecode ''???_ibE_ibE??~hbE~hbE?'' = Inr ([(0, 0), (0, 1), (1, 1), (1, 0)] @ [hd [(0, 0), (0, 1), (1, 1), (1, 0)]])
   \<and> 3 \<le> length [(0, 0), (0, 1), (1, 1), (1, 0 :: rat) :: rat \<times> rat]
   \<and> hd [(0, 0), (0, 1), (1, 1), (1, 0 :: rat) :: rat \<times> rat] \<noteq> last [(0, 0), (0, 1), (1, 1), (1, 0)]
   \<and> coordinateInPolygon tableDecode rayCastTurf \<lparr> lat = 1/2, lng = 1/2 \<rparr> ''???_ibE_ibE??~hbE~hbE?''
       = coordinateInPolygon tableDecode rayCastTurf \<lparr> lat = 1/2, lng = 1/2 \<rparr> ''???_ibE_ibE??~hbE''
   \<and> coordinateInPolygon tableDecode rayCastTurf \<lparr> lat = 1/2, lng = 1/2 \<rparr> ''???_ibE_ibE??~hbE'' = Inr True
   \<and> closePolygon [(0, 0), (1, 0), (1, 1), (0, 1)] = Inr [(0, 0), (1, 0), (1, 1), (0, 1), (0, 0)]
   \<and> closePolygon [(0, 0), (1, 0), (1, 1), (0, 1), (0, 0)] = Inr [(0, 0), (1, 0), (1, 1), (0, 1), (0, 0)]"
proof -
  have d1: "tableDecode ''???_ibE_ibE??~hbE'' = Inr [(0, 0), (0, 1), (1, 1), (1, 0)]"
    by (simp add: tableDecode_def)
  have d2: "tableDecode ''???_ibE_ibE??~hbE~hbE?'' =
      Inr ([(0, 0), (0, 1), (1, 1), (1, 0)] @ [hd [(0, 0), (0, 1), (1, 1), (1, 0)]])"
    by (simp add: tableDecode_def)
  have n: "3 \<le> length [(0, 0), (0, 1), (1, 1), (1, 0 :: rat) :: rat \<times> rat]" by simp
  have o: "hd [(0, 0), (0, 1), (1, 1), (1, 0 :: rat) :: rat \<times> rat] \<noteq> last [(0, 0), (0, 1), (1, 1), (1, 0)]"
    by simp
  note same = C7_closure_idempotent [where decode = tableDecode and turf = rayCastTurf
      and coordinate = "\<lparr> lat = 1/2, lng = 1/2 \<rparr>", OF d1 d2 n o]
  have c1: "closePolygon [(0, 0), (1, 0), (1, 1), (0, 1)] = Inr [(0, 0), (1, 0), (1, 1), (0, 1), (0, 0)]"
    by (simp add: closePolygon_def)
  have c2: "closePolygon [(0, 0), (1, 0), (1, 1), (0, 1), (0, 0)] = Inr [(0, 0), (1, 0), (1, 1), (0, 1), (0, 0)]"
    using same c1 by blast
  have t: "coordinateInPolygon tableDecode rayCastTurf \<lparr> lat = 1/2, lng = 1/2 \<rparr> ''???_ibE_ibE??~hbE'' = Inr True"
    using square_tests(2) by (simp add: squareRegion_def)
  show ?thesis using d1 d2 n o same c1 c2 t by blast
qed

text \<open>
  Claim C10. For an encoded polygon that decodes to an empty vertex sequence the test throws a
  TypeError (the closure check indexes the first element of the empty coordinate list), for
  every coordinate; it neither returns \<^verbatim>\<open>false\<close> nor reaches Turf.
\<close>

theorem C10_empty_polygon_throws:
  assumes "decode encodedPolygon = Inr []"
  shows "coordinateInPolygon decode turf coordinate encodedPolygon = Inl TypeError"
  by (simp add: coordinateInPolygon_def closePolygon_def assms)

theorem C10_empty_polygon_throws_witness:
  "tableDecode [] = Inr []
   \<and> coordinateInPolygon tableDecode rayCastTurf \<lparr> lat = 1/2, lng = 1/2 \<rparr> [] = Inl TypeError
   \<and> coordinateInPolygon tableDecode (\<lambda>p ring. Inr False) \<lparr> lat = -33, lng = 151 \<rparr> [] = Inl TypeError"
proof -
  have d: "tableDecode [] = Inr []" by (simp add: tableDecode_def)
  show ?thesis
    using d
      C10_empty_polygon_throws [where decode = tableDecode and turf = rayCastTurf
        and coordinate = "\<lparr> lat = 1/2, lng = 1/2 \<rparr>", OF d]
      C10_empty_polygon_throws [where decode = tableDecode and turf = "\<lambda>p ring. Inr False"
        and coordinate = "\<lparr> lat = -33, lng = 151 \<rparr>", OF d]
    by blast
qed

subsection \<open>Local time to UTC and back\<close>

lemma whole_seconds_offset:
  fixes d k :: int
  assumes "k mod 1000 = 0"
  shows "(d + k) div 1000 * 1000 - d div 1000 * 1000 = k"
proof -
  obtain j where j: "k = j * 1000"
    using assms by (auto simp: mod_eq_0_iff_dvd elim: dvdE)
  show ?thesis by (simp add: j algebra_simps)
qed

text \<open>
  On a server that runs in UTC the round trip is right whenever the zone has the same offset
  at the naive timestamp read as UTC and at the instant returned.
\<close>

lemma roundtrip_when_offset_stable:
  assumes p: "parseDate (s @ ''Z'') = Some date"
    and z: "tz zone = Some off"
    and whole: "off date mod 1000 = 0"
    and stable: "off (date - off date) = off date"
    and valid: "validTime (date - off date)"
  shows "zonedTimeToUtc tz parseDate (\<lambda>w. w) s zone = Inr (Some (date - off date))
       \<and> toISOStringInTimezone tz (date - off date) zone
            = Inr \<lparr> wallClock = date div 1000, utcOffset = off date \<rparr>"
proof -
  have o: "localeWall off date - localeWall (\<lambda>t. 0) date = off date"
    using whole_seconds_offset [OF whole, of date] by (simp add: localeWall_def)
  have a: "zonedTimeToUtc tz parseDate (\<lambda>w. w) s zone = Inr (Some (date - off date))"
    by (simp add: zonedTimeToUtc_def p z Let_def o valid)
  have b: "toISOStringInTimezone tz (date - off date) zone
            = Inr \<lparr> wallClock = date div 1000, utcOffset = off date \<rparr>"
    by (simp add: toISOStringInTimezone_def z valid stable)
  show ?thesis using a b by simp
qed

text \<open>
  The example of the docstring (19:00 on 18 July 2025 in Sydney is 09:00 UTC, offset +10:00),
  and a date in daylight saving time (offset +11:00).
\<close>

lemma roundtrip_docstring_example:
  "zonedTimeToUtc sydney2025 isoTable (\<lambda>w. w) ''2025-07-18T19:00:00'' ''Australia/Sydney''
     = Inr (Some (1752865200000 - 36000000))
   \<and> toISOStringInTimezone sydney2025 (1752865200000 - 36000000) ''Australia/Sydney''
     = Inr \<lparr> wallClock = 1752865200, utcOffset = 36000000 \<rparr>
   \<and> zonedTimeToUtc sydney2025 isoTable (\<lambda>w. w) ''2025-01-15T12:00:00'' ''Australia/Sydney''
     = Inr (Some (1736942400000 - 39600000))
   \<and> toISOStringInTimezone sydney2025 (1736942400000 - 39600000) ''Australia/Sydney''
     = Inr \<lparr> wallClock = 1736942400, utcOffset = 39600000 \<rparr>"
  by (simp add: isoTable_def zonedTimeToUtc_def toISOStringInTimezone_def sydney2025_def
      localeWall_def validTime_def Let_def)

text \<open>
  Claim C3 fails on the code. On a server that runs in UTC, the naive timestamp
  2025-04-06T01:00:00 in Australia/Sydney (a wall-clock time that exists once, two hours before
  daylight saving ends) is converted with the offset +10:00 that holds at 2025-04-06T01:00:00Z,
  not with the +11:00 that holds at that local time: the result is 2025-04-05T15:00:00Z, which
  \<^verbatim>\<open>toISOStringInTimezone\<close> spells as 2025-04-06T02:00:00 with offset +11:00, one hour after the
  digits that went in.
\<close>

theorem C3_roundtrip_fails_before_dst_end:
  "isoTable (''2025-04-06T01:00:00'' @ ''Z'') = Some (1743901200 * 1000)
   \<and> zonedTimeToUtc sydney2025 isoTable (\<lambda>w. w) ''2025-04-06T01:00:00'' ''Australia/Sydney''
        = Inr (Some 1743865200000)
   \<and> toISOStringInTimezone sydney2025 1743865200000 ''Australia/Sydney''
        = Inr \<lparr> wallClock = 1743904800, utcOffset = 39600000 \<rparr>
   \<and> (1743904800 :: int) = 1743901200 + 3600"
  by (simp add: isoTable_def zonedTimeToUtc_def toISOStringInTimezone_def sydney2025_def
      localeWall_def validTime_def Let_def)

subsection \<open>The routing request\<close>

lemma truthy_whenTruthy: "truthy v \<longleftrightarrow> (\<exists>s. whenTruthy v = Some s \<and> v = Some s)"
  by (cases v) auto

lemma whenTruthy_None: "whenTruthy v = None \<longleftrightarrow> \<not> truthy v"
  by (cases v) auto

lemma timeParams_departure:
  assumes "truthy departureTime"
  shows "timeParams tz pd pl departureTime arrivalTime timezone =
         (case formatDateForTripGo tz pd pl (the departureTime) timezone of
            Inl e \<Rightarrow> Inl e
          | Inr secs \<Rightarrow> Inr [(''departAfter'', QEpoch secs)])"
  using assms by (cases departureTime) (auto simp: timeParams_def)

lemma timeParams_keys:
  assumes "timeParams tz pd pl departureTime arrivalTime timezone = Inr ts"
  shows "(truthy departureTime \<longrightarrow>
            (\<exists>d secs. departureTime = Some d \<and> formatDateForTripGo tz pd pl d timezone = Inr secs
               \<and> ts = [(''departAfter'', QEpoch secs)]))
       \<and> (''arriveBefore'' \<in> fst ` set ts \<longrightarrow> \<not> truthy departureTime \<and> truthy arrivalTime)
       \<and> filter isTimeParam ts = ts"
proof (cases "whenTruthy departureTime")
  case (Some d)
  then have d: "departureTime = Some d" "d \<noteq> []"
    by (cases departureTime; auto split: if_splits)+
  show ?thesis
    using assms Some d by (auto simp: timeParams_def isTimeParam_def split: sum.splits)
next
  case None
  then have nd: "\<not> truthy departureTime" by (simp add: whenTruthy_None)
  show ?thesis
  proof (cases "whenTruthy arrivalTime")
    case (Some a)
    then have "truthy arrivalTime" by (cases arrivalTime; auto split: if_splits)
    then show ?thesis
      using assms None Some nd by (auto simp: timeParams_def isTimeParam_def split: sum.splits)
  next
    case n2: None
    then show ?thesis
      using assms None nd by (auto simp: timeParams_def isTimeParam_def)
  qed
qed

lemma url_time_filter:
  assumes "handleRouting_url tz pd pl fromLat fromLng toLat toLng departureTime arrivalTime
             modes maxWalkingTime wheelchair timezone = Inr ps"
  shows "\<exists>ts. timeParams tz pd pl departureTime arrivalTime timezone = Inr ts
            \<and> filter isTimeParam ps = filter isTimeParam ts"
proof -
  obtain ts where ts: "timeParams tz pd pl departureTime arrivalTime timezone = Inr ts"
    using assms by (cases "timeParams tz pd pl departureTime arrivalTime timezone")
      (simp_all add: handleRouting_url_def)
  have m: "filter isTimeParam (map (\<lambda>m. (''modes'', QText m)) ms) = []" for ms
    by (induction ms) (simp_all add: isTimeParam_def)
  have "filter isTimeParam ps = filter isTimeParam ts"
    using assms
    by (auto simp: handleRouting_url_def ts m isTimeParam_def split: option.splits if_splits)
  then show ?thesis using ts by blast
qed

text \<open>
  Claim C9. When a departure time is given (present and not the empty string, which JavaScript
  treats as absent), the arrival time is ignored: the request is the one built without an
  arrival time, its only time parameter is \<^verbatim>\<open>departAfter\<close> with the converted departure time, and
  \<^verbatim>\<open>arriveBefore\<close> is not sent. A request carries \<^verbatim>\<open>arriveBefore\<close> only when no departure time is
  given and an arrival time is.
\<close>

theorem C9_departure_time_priority:
  "(truthy departureTime \<longrightarrow>
      handleRouting_url tz pd pl fromLat fromLng toLat toLng departureTime arrivalTime
        modes maxWalkingTime wheelchair timezone
      = handleRouting_url tz pd pl fromLat fromLng toLat toLng departureTime None
        modes maxWalkingTime wheelchair timezone)
   \<and> (\<forall>ps. handleRouting_url tz pd pl fromLat fromLng toLat toLng departureTime arrivalTime
              modes maxWalkingTime wheelchair timezone = Inr ps \<longrightarrow>
          (truthy departureTime \<longrightarrow>
             (\<exists>d secs. departureTime = Some d
                \<and> formatDateForTripGo tz pd pl d timezone = Inr secs
                \<and> filter isTimeParam ps = [(''departAfter'', QEpoch secs)]))
          \<and> (''arriveBefore'' \<in> fst ` set ps \<longrightarrow> \<not> truthy departureTime \<and> truthy arrivalTime))"
proof -
  have ignore: "handleRouting_url tz pd pl fromLat fromLng toLat toLng departureTime arrivalTime
        modes maxWalkingTime wheelchair timezone
      = handleRouting_url tz pd pl fromLat fromLng toLat toLng departureTime None
        modes maxWalkingTime wheelchair timezone" if "truthy departureTime"
    by (simp add: handleRouting_url_def timeParams_departure [OF that])
  have keys: "(truthy departureTime \<longrightarrow>
             (\<exists>d secs. departureTime = Some d
                \<and> formatDateForTripGo tz pd pl d timezone = Inr secs
                \<and> filter isTimeParam ps = [(''departAfter'', QEpoch secs)]))
          \<and> (''arriveBefore'' \<in> fst ` set ps \<longrightarrow> \<not> truthy departureTime \<and> truthy arrivalTime)"
    if run: "handleRouting_url tz pd pl fromLat fromLng toLat toLng departureTime arrivalTime
              modes maxWalkingTime wheelchair timezone = Inr ps" for ps
  proof -
    obtain ts where ts: "timeParams tz pd pl departureTime arrivalTime timezone = Inr ts"
      and f: "filter isTimeParam ps = filter isTimeParam ts"
      using url_time_filter [OF run] by blast
    note k = timeParams_keys [OF ts]
    have a: "truthy departureTime \<longrightarrow>
             (\<exists>d secs. departureTime = Some d
                \<and> formatDateForTripGo tz pd pl d timezone = Inr secs
                \<and> filter isTimeParam ps = [(''departAfter'', QEpoch secs)])"
      using k f by auto
    have "''arriveBefore'' \<in> fst ` set ts" if ab: "''arriveBefore'' \<in> fst ` set ps"
    proof -
      obtain v where "(''arriveBefore'', v) \<in> set ps" using ab by force
      then have "(''arriveBefore'', v) \<in> set (filter isTimeParam ps)"
        by (simp add: isTimeParam_def)
      then have "(''arriveBefore'', v) \<in> set ts" using f k by simp
      then show ?thesis by force
    qed
    then have b: "''arriveBefore'' \<in> fst ` set ps \<longrightarrow> \<not> truthy departureTime \<and> truthy arrivalTime"
      using k by blast
    show ?thesis using a b by blast
  qed
  show ?thesis using ignore keys by blast
qed

theorem C9_departure_time_priority_witness:
  "truthy (Some ''2025-07-18T19:00:00'')
   \<and> handleRouting_url sydney2025 isoTable (\<lambda>w. w) (-3387 / 100) (15121 / 100) (-3386 / 100) (1512 / 10)
        (Some ''2025-07-18T19:00:00'') (Some ''2025-01-15T12:00:00'') None None None ''Australia/Sydney''
      = Inr [(''from'', QPoint (-3387 / 100) (15121 / 100)), (''to'', QPoint (-3386 / 100) (1512 / 10)),
             (''departAfter'', QEpoch (Some 1752829200)), (''v'', QText ''11'')]
   \<and> handleRouting_url sydney2025 isoTable (\<lambda>w. w) (-3387 / 100) (15121 / 100) (-3386 / 100) (1512 / 10)
        None (Some ''2025-01-15T12:00:00'') None None None ''Australia/Sydney''
      = Inr [(''from'', QPoint (-3387 / 100) (15121 / 100)), (''to'', QPoint (-3386 / 100) (1512 / 10)),
             (''arriveBefore'', QEpoch (Some 1736902800)), (''v'', QText ''11'')]"
proof -
  have t: "truthy (Some ''2025-07-18T19:00:00'')" by simp
  have dep: "formatDateForTripGo sydney2025 isoTable (\<lambda>w. w) ''2025-07-18T19:00:00'' ''Australia/Sydney''
      = Inr (Some 1752829200)"
    by (simp add: formatDateForTripGo_def hasTimezoneInfo_def isDigit_def zonedTimeToUtc_def
        isoTable_def sydney2025_def localeWall_def validTime_def Let_def)
  have arr: "formatDateForTripGo sydney2025 isoTable (\<lambda>w. w) ''2025-01-15T12:00:00'' ''Australia/Sydney''
      = Inr (Some 1736902800)"
    by (simp add: formatDateForTripGo_def hasTimezoneInfo_def isDigit_def zonedTimeToUtc_def
        isoTable_def sydney2025_def localeWall_def validTime_def Let_def)
  have alone: "handleRouting_url sydney2025 isoTable (\<lambda>w. w) (-3387 / 100) (15121 / 100) (-3386 / 100) (1512 / 10)
        (Some ''2025-07-18T19:00:00'') None None None None ''Australia/Sydney''
      = Inr [(''from'', QPoint (-3387 / 100) (15121 / 100)), (''to'', QPoint (-3386 / 100) (1512 / 10)),
             (''departAfter'', QEpoch (Some 1752829200)), (''v'', QText ''11'')]"
    by (simp add: handleRouting_url_def timeParams_def dep)
  have both: "handleRouting_url sydney2025 isoTable (\<lambda>w. w) (-3387 / 100) (15121 / 100) (-3386 / 100) (1512 / 10)
        (Some ''2025-07-18T19:00:00'') (Some ''2025-01-15T12:00:00'') None None None ''Australia/Sydney''
      = Inr [(''from'', QPoint (-3387 / 100) (15121 / 100)), (''to'', QPoint (-3386 / 100) (1512 / 10)),
             (''departAfter'', QEpoch (Some 1752829200)), (''v'', QText ''11'')]"
    using C9_departure_time_priority [THEN conjunct1, rule_format, OF t,
        of sydney2025 isoTable "\<lambda>w. w" "-3387 / 100" "15121 / 100" "-3386 / 100" "1512 / 10"
           "Some ''2025-01-15T12:00:00''" None None None "''Australia/Sydney''"]
      alone by simp
  have arrive_only: "handleRouting_url sydney2025 isoTable (\<lambda>w. w) (-3387 / 100) (15121 / 100) (-3386 / 100) (1512 / 10)
        None (Some ''2025-01-15T12:00:00'') None None None ''Australia/Sydney''
      = Inr [(''from'', QPoint (-3387 / 100) (15121 / 100)), (''to'', QPoint (-3386 / 100) (1512 / 10)),
             (''arriveBefore'', QEpoch (Some 1736902800)), (''v'', QText ''11'')]"
    by (simp add: handleRouting_url_def timeParams_def arr)
  show ?thesis using t both arrive_only by blast
qed

subsection \<open>Upstream errors\<close>

text \<open>Without a \<^verbatim>\<open>regions\<close> member the routing operation fails with a fixed message, and the
  \<^verbatim>\<open>error\<close> member of the regions body is never read.\<close>

lemma handleRouting_no_regions:
  assumes "regions_data regionsData = None"
  shows "handleRouting decode turf tz parseDate parseLocal regionsData fetchRouting
      fromLat fromLng toLat toLng departureTime arrivalTime modes maxWalkingTime wheelchair limit
    = Inl (Error ''Failed to fetch regions'')"
  by (simp add: handleRouting_def getRegionForCoordinate_def fetchRegions_response_def assms)

lemma handleRouting_error_field_unread:
  "handleRouting decode turf tz parseDate parseLocal (regionsData \<lparr> error_regions := e \<rparr>) fetchRouting
      fromLat fromLng toLat toLng departureTime arrivalTime modes maxWalkingTime wheelchair limit
   = handleRouting decode turf tz parseDate parseLocal regionsData fetchRouting
      fromLat fromLng toLat toLng departureTime arrivalTime modes maxWalkingTime wheelchair limit"
  by (simp add: handleRouting_def)

lemma square_lookup:
  "getRegionForCoordinate tableDecode rayCastTurf \<lparr> lat = 1/2, lng = 1/2 \<rparr> (Some [squareRegion])
     = Inr (Some squareRegion)"
  by (simp add: getRegionForCoordinate_def fetchRegions_response_def square_tests)

lemma square_request:
  "routingTimezone (Some squareRegion) = ''Australia/Sydney''"
  "handleRouting_url sydney2025 isoTable (\<lambda>w. w) (1/2) (1/2) (3/4) (3/4) None None None None None
     ''Australia/Sydney''
     = Inr [(''from'', QPoint (1/2) (1/2)), (''to'', QPoint (3/4) (3/4)), (''v'', QText ''11'')]"
  by (simp_all add: routingTimezone_def squareRegion_def handleRouting_url_def timeParams_def)

text \<open>
  Claim C6, as amended. When the response a handler formats (the body of \<^verbatim>\<open>routing.json\<close>, of the
  trip URL, of \<^verbatim>\<open>locations.json\<close>, of \<^verbatim>\<open>departures.json\<close>) carries a non-empty \<^verbatim>\<open>error\<close> field,
  the tool fails with an error whose message ends with the upstream message, whatever else the
  response holds: nothing is formatted and no result list is returned. The same holds of the
  routing operation as a whole once the region lookup and the request have succeeded. The body
  of \<^verbatim>\<open>regions.json\<close>, which routing fetches first, is not tested for an \<^verbatim>\<open>error\<close> field: without
  a \<^verbatim>\<open>regions\<close> member the operation fails with the fixed message "Failed to fetch regions",
  which does not carry the upstream message, and with a \<^verbatim>\<open>regions\<close> member the operation runs
  as it does without the error field.
\<close>

theorem C6_formatted_response_error_aborts:
  assumes "msg \<noteq> []"
  shows "tool_execute ''tripgo_routing''
           (handleRouting_response tz (routing \<lparr> error_routing := Some msg \<rparr>) limit timezone)
         = Inl (ToolError ''tripgo_routing'' (Error (''Routing failed: '' @ msg)))
       \<and> tool_execute ''tripgo_save'' (handleSaveTrip_response (saved \<lparr> error_save := Some msg \<rparr>))
         = Inl (ToolError ''tripgo_save'' (Error (''Routing failed: '' @ msg)))
       \<and> tool_execute ''tripgo_locations''
           (handleLocationsSearch_response (found \<lparr> error_locations := Some msg \<rparr>))
         = Inl (ToolError ''tripgo_locations'' (Error (''Locations search failed: '' @ msg)))
       \<and> tool_execute ''tripgo_departures''
           (handleDepartures_response (departing \<lparr> error_departures := Some msg \<rparr>))
         = Inl (ToolError ''tripgo_departures'' (Error (''Departures search failed: '' @ msg)))
       \<and> (\<forall>r query.
             getRegionForCoordinate decode turf \<lparr> lat = fromLat, lng = fromLng \<rparr>
               (regions_data regionsData) = Inr r
             \<and> handleRouting_url tz parseDate parseLocal fromLat fromLng toLat toLng
                 departureTime arrivalTime modes maxWalkingTime wheelchair (routingTimezone r)
               = Inr query
             \<and> fetchRouting query = Inr (routing \<lparr> error_routing := Some msg \<rparr>) \<longrightarrow>
             tool_execute ''tripgo_routing''
               (handleRouting decode turf tz parseDate parseLocal regionsData fetchRouting
                  fromLat fromLng toLat toLng departureTime arrivalTime modes maxWalkingTime
                  wheelchair limit)
             = Inl (ToolError ''tripgo_routing'' (Error (''Routing failed: '' @ msg))))
       \<and> (regions_data regionsData = None \<longrightarrow>
             tool_execute ''tripgo_routing''
               (handleRouting decode turf tz parseDate parseLocal
                  (regionsData \<lparr> error_regions := Some msg \<rparr>) fetchRouting
                  fromLat fromLng toLat toLng departureTime arrivalTime modes maxWalkingTime
                  wheelchair limit)
             = Inl (ToolError ''tripgo_routing'' (Error ''Failed to fetch regions'')))
       \<and> handleRouting decode turf tz parseDate parseLocal
            (regionsData \<lparr> error_regions := Some msg \<rparr>) fetchRouting
            fromLat fromLng toLat toLng departureTime arrivalTime modes maxWalkingTime wheelchair limit
          = handleRouting decode turf tz parseDate parseLocal
            (regionsData \<lparr> error_regions := None \<rparr>) fetchRouting
            fromLat fromLng toLat toLng departureTime arrivalTime modes maxWalkingTime wheelchair limit"
proof -
  have handlers: "tool_execute ''tripgo_routing''
           (handleRouting_response tz (routing \<lparr> error_routing := Some msg \<rparr>) limit timezone)
         = Inl (ToolError ''tripgo_routing'' (Error (''Routing failed: '' @ msg)))
       \<and> tool_execute ''tripgo_save'' (handleSaveTrip_response (saved \<lparr> error_save := Some msg \<rparr>))
         = Inl (ToolError ''tripgo_save'' (Error (''Routing failed: '' @ msg)))
       \<and> tool_execute ''tripgo_locations''
           (handleLocationsSearch_response (found \<lparr> error_locations := Some msg \<rparr>))
         = Inl (ToolError ''tripgo_locations'' (Error (''Locations search failed: '' @ msg)))
       \<and> tool_execute ''tripgo_departures''
           (handleDepartures_response (departing \<lparr> error_departures := Some msg \<rparr>))
         = Inl (ToolError ''tripgo_departures'' (Error (''Departures search failed: '' @ msg)))"
    using assms
    by (simp add: tool_execute_def handleRouting_response_def handleSaveTrip_response_def
        handleLocationsSearch_response_def handleDepartures_response_def)
  have whole: "tool_execute ''tripgo_routing''
               (handleRouting decode turf tz parseDate parseLocal regionsData fetchRouting
                  fromLat fromLng toLat toLng departureTime arrivalTime modes maxWalkingTime
                  wheelchair limit)
             = Inl (ToolError ''tripgo_routing'' (Error (''Routing failed: '' @ msg)))"
    if "getRegionForCoordinate decode turf \<lparr> lat = fromLat, lng = fromLng \<rparr>
               (regions_data regionsData) = Inr r"
      and "handleRouting_url tz parseDate parseLocal fromLat fromLng toLat toLng
                 departureTime arrivalTime modes maxWalkingTime wheelchair (routingTimezone r)
               = Inr query"
      and "fetchRouting query = Inr (routing \<lparr> error_routing := Some msg \<rparr>)" for r query
    using that assms
    by (simp add: handleRouting_def Let_def tool_execute_def handleRouting_response_def)
  have dropped: "tool_execute ''tripgo_routing''
               (handleRouting decode turf tz parseDate parseLocal
                  (regionsData \<lparr> error_regions := Some msg \<rparr>) fetchRouting
                  fromLat fromLng toLat toLng departureTime arrivalTime modes maxWalkingTime
                  wheelchair limit)
             = Inl (ToolError ''tripgo_routing'' (Error ''Failed to fetch regions''))"
    if "regions_data regionsData = None"
    using that by (simp add: handleRouting_no_regions tool_execute_def)
  have unread: "handleRouting decode turf tz parseDate parseLocal
            (regionsData \<lparr> error_regions := Some msg \<rparr>) fetchRouting
            fromLat fromLng toLat toLng departureTime arrivalTime modes maxWalkingTime wheelchair limit
          = handleRouting decode turf tz parseDate parseLocal
            (regionsData \<lparr> error_regions := None \<rparr>) fetchRouting
            fromLat fromLng toLat toLng departureTime arrivalTime modes maxWalkingTime wheelchair limit"
    by (simp add: handleRouting_error_field_unread)
  show ?thesis using handlers whole dropped unread by blast
qed

text \<open>
  The routing response of the example would throw a TypeError if its groups were formatted; with
  an error field the upstream message is reported instead.
\<close>

theorem C6_formatted_response_error_aborts_witness:
  "''Destination lies outside covered area'' \<noteq> []
   \<and> tool_execute ''tripgo_routing''
        (handleRouting_response utcOnly
           (routingWithEmptyGroup \<lparr> error_routing := Some ''Destination lies outside covered area'' \<rparr>)
           (Some 3) ''UTC'')
      = Inl (ToolError ''tripgo_routing''
               (Error ''Routing failed: Destination lies outside covered area''))
   \<and> handleRouting_response utcOnly routingWithEmptyGroup (Some 3) ''UTC'' = Inl TypeError
   \<and> tool_execute ''tripgo_departures''
        (handleDepartures_response
           (exampleDepartures \<lparr> error_departures := Some ''Destination lies outside covered area'' \<rparr>))
      = Inl (ToolError ''tripgo_departures''
               (Error ''Departures search failed: Destination lies outside covered area''))
   \<and> tool_execute ''tripgo_routing''
        (handleRouting tableDecode rayCastTurf sydney2025 isoTable (\<lambda>w. w) listedRegions
           (\<lambda>query. Inr (routingWithEmptyGroup
                            \<lparr> error_routing := Some ''Destination lies outside covered area'' \<rparr>))
           (1/2) (1/2) (3/4) (3/4) None None None None None (Some 3))
      = Inl (ToolError ''tripgo_routing''
               (Error ''Routing failed: Destination lies outside covered area''))
   \<and> regions_data failedRegions = None
   \<and> tool_execute ''tripgo_routing''
        (handleRouting tableDecode rayCastTurf sydney2025 isoTable (\<lambda>w. w)
           (failedRegions \<lparr> error_regions := Some ''Destination lies outside covered area'' \<rparr>)
           (\<lambda>query. Inr exampleRouting)
           (1/2) (1/2) (3/4) (3/4) None None None None None (Some 3))
      = Inl (ToolError ''tripgo_routing'' (Error ''Failed to fetch regions''))"
proof -
  have m: "''Destination lies outside covered area'' \<noteq> []" by simp
  have t: "handleRouting_response utcOnly routingWithEmptyGroup (Some 3) ''UTC'' = Inl TypeError"
    by (simp add: handleRouting_response_def routingWithEmptyGroup_def selectedGroups_def
        selectGroup_def array_sort_def)
  note formatted = C6_formatted_response_error_aborts [OF m, where tz = utcOnly
      and routing = routingWithEmptyGroup and limit = "Some 3" and timezone = "''UTC''"
      and departing = exampleDepartures]
  have a: "tool_execute ''tripgo_routing''
        (handleRouting_response utcOnly
           (routingWithEmptyGroup \<lparr> error_routing := Some ''Destination lies outside covered area'' \<rparr>)
           (Some 3) ''UTC'')
      = Inl (ToolError ''tripgo_routing''
               (Error ''Routing failed: Destination lies outside covered area''))"
    using formatted [THEN conjunct1] by simp
  have b: "tool_execute ''tripgo_departures''
        (handleDepartures_response
           (exampleDepartures \<lparr> error_departures := Some ''Destination lies outside covered area'' \<rparr>))
      = Inl (ToolError ''tripgo_departures''
               (Error ''Departures search failed: Destination lies outside covered area''))"
    using formatted [THEN conjunct2, THEN conjunct2, THEN conjunct2, THEN conjunct1] by simp
  note whole = C6_formatted_response_error_aborts [OF m, where tz = sydney2025
      and routing = routingWithEmptyGroup and limit = "Some 3"
      and decode = tableDecode and turf = rayCastTurf and parseDate = isoTable
      and parseLocal = "\<lambda>w. w" and regionsData = listedRegions
      and fetchRouting = "\<lambda>query. Inr (routingWithEmptyGroup
                            \<lparr> error_routing := Some ''Destination lies outside covered area'' \<rparr>)"
      and fromLat = "1/2" and fromLng = "1/2" and toLat = "3/4" and toLng = "3/4"
      and departureTime = None and arrivalTime = None and modes = None
      and maxWalkingTime = None and wheelchair = None]
  have c: "tool_execute ''tripgo_routing''
        (handleRouting tableDecode rayCastTurf sydney2025 isoTable (\<lambda>w. w) listedRegions
           (\<lambda>query. Inr (routingWithEmptyGroup
                            \<lparr> error_routing := Some ''Destination lies outside covered area'' \<rparr>))
           (1/2) (1/2) (3/4) (3/4) None None None None None (Some 3))
      = Inl (ToolError ''tripgo_routing''
               (Error ''Routing failed: Destination lies outside covered area''))"
  proof -
    have g: "getRegionForCoordinate tableDecode rayCastTurf \<lparr> lat = 1/2, lng = 1/2 \<rparr>
        (regions_data listedRegions) = Inr (Some squareRegion)"
      by (simp add: listedRegions_def square_lookup)
    have u: "handleRouting_url sydney2025 isoTable (\<lambda>w. w) (1/2) (1/2) (3/4) (3/4)
        None None None None None (routingTimezone (Some squareRegion))
        = Inr [(''from'', QPoint (1/2) (1/2)), (''to'', QPoint (3/4) (3/4)), (''v'', QText ''11'')]"
      by (simp add: square_request)
    show ?thesis
      using whole [THEN conjunct2, THEN conjunct2, THEN conjunct2, THEN conjunct2,
          THEN conjunct1, rule_format, of "Some squareRegion"
            "[(''from'', QPoint (1/2) (1/2)), (''to'', QPoint (3/4) (3/4)), (''v'', QText ''11'')]"]
        g u by simp
  qed
  have n: "regions_data failedRegions = None" by (simp add: failedRegions_def)
  note lost = C6_formatted_response_error_aborts [OF m, where tz = sydney2025
      and limit = "Some 3"
      and decode = tableDecode and turf = rayCastTurf and parseDate = isoTable
      and parseLocal = "\<lambda>w. w" and regionsData = failedRegions
      and fetchRouting = "\<lambda>query. Inr exampleRouting"
      and fromLat = "1/2" and fromLng = "1/2" and toLat = "3/4" and toLng = "3/4"
      and departureTime = None and arrivalTime = None and modes = None
      and maxWalkingTime = None and wheelchair = None]
  have d: "tool_execute ''tripgo_routing''
        (handleRouting tableDecode rayCastTurf sydney2025 isoTable (\<lambda>w. w)
           (failedRegions \<lparr> error_regions := Some ''Destination lies outside covered area'' \<rparr>)
           (\<lambda>query. Inr exampleRouting)
           (1/2) (1/2) (3/4) (3/4) None None None None None (Some 3))
      = Inl (ToolError ''tripgo_routing'' (Error ''Failed to fetch regions''))"
    using lost [THEN conjunct2, THEN conjunct2, THEN conjunct2, THEN conjunct2,
        THEN conjunct2, THEN conjunct1, rule_format, OF n] by simp
  show ?thesis using m a t b c n d by simp
qed

text \<open>
  C6 as stated fails on the first upstream response of the routing operation: a body of
  \<^verbatim>\<open>regions.json\<close> with the error "Invalid API key" and no regions makes the tool fail with
  "Failed to fetch regions", and a body with that error and a region list does not make it fail
  at all.
\<close>

theorem C6_regions_error_counterexample:
  "error_regions failedRegions = Some ''Invalid API key''
   \<and> tool_execute ''tripgo_routing''
        (handleRouting tableDecode rayCastTurf sydney2025 isoTable (\<lambda>w. w) failedRegions
           (\<lambda>query. Inr exampleRouting)
           (1/2) (1/2) (3/4) (3/4) None None None None None (Some 2))
      = Inl (ToolError ''tripgo_routing'' (Error ''Failed to fetch regions''))
   \<and> error_regions flaggedRegions = Some ''Invalid API key''
   \<and> (\<exists>out. tool_execute ''tripgo_routing''
          (handleRouting tableDecode rayCastTurf sydney2025 isoTable (\<lambda>w. w) flaggedRegions
             (\<lambda>query. Inr exampleRouting)
             (1/2) (1/2) (3/4) (3/4) None None None None None (Some 2))
        = Inr out
        \<and> map ft_id out = [''b2'', ''b3'', ''c1''])"
proof -
  have a: "tool_execute ''tripgo_routing''
        (handleRouting tableDecode rayCastTurf sydney2025 isoTable (\<lambda>w. w) failedRegions
           (\<lambda>query. Inr exampleRouting)
           (1/2) (1/2) (3/4) (3/4) None None None None None (Some 2))
      = Inl (ToolError ''tripgo_routing'' (Error ''Failed to fetch regions''))"
    by (simp add: handleRouting_no_regions failedRegions_def tool_execute_def)
  have sel: "selectedGroups (Some exampleGroups) (Some 2) =
      Inr [\<lparr> sel_trips = [exampleTrip ''b2'' 1, exampleTrip ''b3'' 2], sel_score = 1 \<rparr>,
           \<lparr> sel_trips = [exampleTrip ''c1'' 3], sel_score = 3 \<rparr>]"
    by (simp add: selectedGroups_def selectGroup_def array_sort_def exampleGroups_def
        exampleTrip_def)
  have fmt: "\<exists>ft. formatTrip sydney2025 None ''Australia/Sydney'' (exampleTrip i s) = Inr ft
      \<and> ft_id ft = i" for i s
    by (simp add: formatTrip_def toISOStringInTimezone_def sydney2025_def validTime_def
        exampleTrip_def)
  obtain f1 f2 f3 where
    f: "formatTrip sydney2025 None ''Australia/Sydney'' (exampleTrip ''b2'' 1) = Inr f1" "ft_id f1 = ''b2''"
       "formatTrip sydney2025 None ''Australia/Sydney'' (exampleTrip ''b3'' 2) = Inr f2" "ft_id f2 = ''b3''"
       "formatTrip sydney2025 None ''Australia/Sydney'' (exampleTrip ''c1'' 3) = Inr f3" "ft_id f3 = ''c1''"
    using fmt [of "''b2''" 1] fmt [of "''b3''" 2] fmt [of "''c1''" 3] by blast
  have run: "handleRouting_response sydney2025 exampleRouting (Some 2) ''Australia/Sydney''
      = Inr [f1, f2, f3]"
    by (simp add: handleRouting_response_def exampleRouting_def sel f)
  have b: "tool_execute ''tripgo_routing''
          (handleRouting tableDecode rayCastTurf sydney2025 isoTable (\<lambda>w. w) flaggedRegions
             (\<lambda>query. Inr exampleRouting)
             (1/2) (1/2) (3/4) (3/4) None None None None None (Some 2))
        = Inr [f1, f2, f3]"
    by (simp add: handleRouting_def flaggedRegions_def square_lookup square_request run
        tool_execute_def)
  show ?thesis
    using a b f by (simp add: failedRegions_def flaggedRegions_def)
qed

subsection \<open>Departures\<close>

lemma departuresOfStop_ignores_stops:
  "departuresOfStop stopList embarkationStop = departuresOfStop None embarkationStop"
  by (simp add: departuresOfStop_def)

text \<open>
  Claim C8 fails on the later revision of \<^verbatim>\<open>handleDepartures\<close>. Its output does not depend on
  the \<^verbatim>\<open>stops\<close> list at all: for the example response, whose stop 200060 is listed with the
  name Central Station, the formatted entry has no stop name and is the entry produced when
  \<^verbatim>\<open>stops\<close> is absent. The earlier revision attaches the stop code and the name.
\<close>

theorem C8_stop_name_not_attached:
  "handleDepartures_response (data \<lparr> stops := stopList \<rparr>) = handleDepartures_response (data \<lparr> stops := None \<rparr>)
   \<and> findStop (stops exampleDepartures) ''200060'' = Some centralStop
   \<and> name centralStop = Some ''Central Station''
   \<and> handleDepartures_response exampleDepartures =
       Inr [\<lparr> dep_scheduledDeparture = 1752829200000,
              dep_realTimeDeparture = Some 1752829260000,
              dep_realTime = True,
              dep_service = \<lparr> svc_id = ''T1-0900'', svc_name = Some ''North Shore Line'',
                              svc_number = Some ''T1'', svc_direction = Some ''Hornsby'',
                              svc_operator = Some ''Sydney Trains'', svc_mode = Some ''train'' \<rparr>,
              dep_wheelchairAccessible = Some True,
              dep_vehicle = None \<rparr>]
   \<and> handleDepartures_response (exampleDepartures \<lparr> stops := None \<rparr>) = handleDepartures_response exampleDepartures
   \<and> (\<exists>entry. handleDepartures_response_earlier exampleDepartures = Inr [entry]
         \<and> early_stopCode entry = ''200060'' \<and> early_stopName entry = Some ''Central Station'')"
proof -
  have general: "handleDepartures_response (d \<lparr> stops := s \<rparr>) = handleDepartures_response (d \<lparr> stops := None \<rparr>)"
    for d s
  proof -
    have "departuresOfStop s = departuresOfStop None"
      by (intro ext) (rule departuresOfStop_ignores_stops)
    then show ?thesis
      by (cases "whenTruthy (error_departures d)") (simp_all add: handleDepartures_response_def)
  qed
  have run: "handleDepartures_response exampleDepartures =
       Inr [\<lparr> dep_scheduledDeparture = 1752829200000,
              dep_realTimeDeparture = Some 1752829260000,
              dep_realTime = True,
              dep_service = \<lparr> svc_id = ''T1-0900'', svc_name = Some ''North Shore Line'',
                              svc_number = Some ''T1'', svc_direction = Some ''Hornsby'',
                              svc_operator = Some ''Sydney Trains'', svc_mode = Some ''train'' \<rparr>,
              dep_wheelchairAccessible = Some True,
              dep_vehicle = None \<rparr>]"
    by (simp add: handleDepartures_response_def departuresOfStop_def formatDeparture_def
        formatRealTimeDeparture_def formatVehicle_def toISOString_def validTime_def members_def
        exampleDepartures_def trainT1_def)
  have same: "handleDepartures_response (exampleDepartures \<lparr> stops := None \<rparr>) = handleDepartures_response exampleDepartures"
    using general [where d = exampleDepartures and s = "stops exampleDepartures"] by simp
  have look: "findStop (stops exampleDepartures) ''200060'' = Some centralStop"
    by (simp add: findStop_def members_def exampleDepartures_def centralStop_def)
  have nm: "name centralStop = Some ''Central Station''"
    by (simp add: centralStop_def)
  have look': "findStop (Some [centralStop]) ''200060'' = Some centralStop"
    using look by (simp add: exampleDepartures_def)
  have early: "\<exists>entry. handleDepartures_response_earlier exampleDepartures = Inr [entry]
         \<and> early_stopCode entry = ''200060'' \<and> early_stopName entry = Some ''Central Station''"
    by (simp add: handleDepartures_response_earlier_def departuresOfStop_earlier_def look' nm
        formatDeparture_def formatRealTimeDeparture_def formatVehicle_def toISOString_def
        validTime_def members_def exampleDepartures_def trainT1_def)
  show ?thesis using general run same look nm early by blast
qed

end
